theory Spec2Isabelle
  imports Main "HOL-Library.Sublist"
begin

section \<open>Python strings, integers and dates\<close>

text \<open>
  Strings are byte lists. \<open>str.lower\<close> changes exactly the letters A to Z on ASCII text;
  no character outside ASCII lowers to one of the letters of \<open>true\<close> or \<open>yes\<close>, so membership
  in that list is the same on bytes as on code points.
\<close>

definition lower_char :: "char \<Rightarrow> char" where
  "lower_char c =
     (case map_of (zip ''ABCDEFGHIJKLMNOPQRSTUVWXYZ'' ''abcdefghijklmnopqrstuvwxyz'') c of
        None \<Rightarrow> c
      | Some l \<Rightarrow> l)"

definition lower :: "string \<Rightarrow> string" where
  "lower s = map lower_char s"

text \<open>
  The bytes are UTF-8, which is how \<open>os.environ\<close> and a file opened in text mode see them on
  Linux. \<open>utf8_len\<close> is the length of the well-formed sequence at the head of a byte list (0
  when there is none: a stray continuation byte, an overlong form, a surrogate, a value above
  U+10FFFF, or a sequence cut short). \<open>utf8_chars\<close> cuts a string into its characters; a byte
  that starts no well-formed sequence stands alone, as the \<open>surrogateescape\<close> handler of
  \<open>os.environ\<close> leaves it.
\<close>

definition continuation :: "nat \<Rightarrow> bool" where
  "continuation b \<longleftrightarrow> 0x80 \<le> b \<and> b \<le> 0xBF"

definition utf8_len :: "nat list \<Rightarrow> nat" where
  "utf8_len bs =
     (case bs of
        [] \<Rightarrow> 0
      | b0 # r0 \<Rightarrow>
          if b0 < 0x80 then 1
          else if 0xC2 \<le> b0 \<and> b0 \<le> 0xDF then
            (case r0 of
               b1 # _ \<Rightarrow> if continuation b1 then 2 else 0
             | _ \<Rightarrow> 0)
          else if 0xE0 \<le> b0 \<and> b0 \<le> 0xEF then
            (case r0 of
               b1 # b2 # _ \<Rightarrow>
                 if (if b0 = 0xE0 then 0xA0 else 0x80) \<le> b1
                    \<and> b1 \<le> (if b0 = 0xED then 0x9F else 0xBF) \<and> continuation b2
                 then 3 else 0
             | _ \<Rightarrow> 0)
          else if 0xF0 \<le> b0 \<and> b0 \<le> 0xF4 then
            (case r0 of
               b1 # b2 # b3 # _ \<Rightarrow>
                 if (if b0 = 0xF0 then 0x90 else 0x80) \<le> b1
                    \<and> b1 \<le> (if b0 = 0xF4 then 0x8F else 0xBF) \<and> continuation b2
                    \<and> continuation b3
                 then 4 else 0
             | _ \<Rightarrow> 0)
          else 0)"

fun utf8_chars :: "string \<Rightarrow> string list" where
  "utf8_chars [] = []"
| "utf8_chars (b # bs) =
     take (max 1 (utf8_len (map of_char (b # bs)))) (b # bs)
       # utf8_chars (drop (utf8_len (map of_char (b # bs)) - 1) bs)"

text \<open>The code point of one character; none for a byte that does not decode.\<close>

definition code_point :: "string \<Rightarrow> nat option" where
  "code_point c =
     (if utf8_len (map of_char c) = 0 then None
      else case map of_char c of
             [b0] \<Rightarrow> Some b0
           | [b0, b1] \<Rightarrow> Some ((b0 - 0xC0) * 64 + (b1 - 0x80))
           | [b0, b1, b2] \<Rightarrow> Some ((b0 - 0xE0) * 4096 + (b1 - 0x80) * 64 + (b2 - 0x80))
           | [b0, b1, b2, b3] \<Rightarrow>
               Some ((b0 - 0xF0) * 262144 + (b1 - 0x80) * 4096 + (b2 - 0x80) * 64 + (b3 - 0x80))
           | _ \<Rightarrow> None)"

text \<open>The code points that \<open>str.isspace\<close> accepts: what \<open>str.strip\<close> removes.\<close>

definition unicode_isspace :: "nat \<Rightarrow> bool" where
  "unicode_isspace cp \<longleftrightarrow>
     cp \<in> set [0x09, 0x0A, 0x0B, 0x0C, 0x0D, 0x1C, 0x1D, 0x1E, 0x1F, 0x20, 0x85, 0xA0, 0x1680,
                 0x2028, 0x2029, 0x202F, 0x205F, 0x3000]
     \<or> (0x2000 \<le> cp \<and> cp \<le> 0x200A)"

definition is_space :: "string \<Rightarrow> bool" where
  "is_space c = (case code_point c of None \<Rightarrow> False | Some cp \<Rightarrow> unicode_isspace cp)"

definition strip :: "string \<Rightarrow> string" where
  "strip s = concat (rev (dropWhile is_space (rev (dropWhile is_space (utf8_chars s)))))"

text \<open>\<open>s.split(sep)\<close> for a one-character separator: always at least one field.\<close>

fun split :: "char \<Rightarrow> string \<Rightarrow> string list" where
  "split sep [] = [[]]"
| "split sep (c # cs) =
     (if c = sep then [] # split sep cs
      else (case split sep cs of
              [] \<Rightarrow> [[c]]
            | f # fs \<Rightarrow> (c # f) # fs))"

text \<open>
  The exceptions a step can end with. \<open>ValueError\<close> carries its message; the two
  \<open>ValueError\<close>s of \<open>int\<close> carry instead the text that was refused (the message quotes it)
  and the number of digits that was found.
\<close>

datatype error =
    ValueError string
  | ValueError_invalid_literal string
  | ValueError_digit_limit nat
  | UnicodeDecodeError
  | ExtractionError string
  | StorageError
  | NotFoundError
  | FileNotFoundError string
  | DuplicateTaskIdFound string

definition digit_val :: "char \<Rightarrow> nat option" where
  "digit_val c =
     map_of [(CHR ''0'', 0), (CHR ''1'', 1), (CHR ''2'', 2), (CHR ''3'', 3), (CHR ''4'', 4),
             (CHR ''5'', 5), (CHR ''6'', 6), (CHR ''7'', 7), (CHR ''8'', 8), (CHR ''9'', 9)] c"

definition digit_char :: "nat \<Rightarrow> char" where
  "digit_char n = ''0123456789'' ! (n mod 10)"

text \<open>
  The digits of a base-10 literal, read left to right with the value so far and whether the
  previous character was a digit: a single underscore is allowed between two digits.
\<close>

fun int_digits :: "nat \<Rightarrow> bool \<Rightarrow> string \<Rightarrow> nat option" where
  "int_digits acc prev [] = (if prev then Some acc else None)"
| "int_digits acc prev (c # cs) =
     (if c = CHR ''_'' then (if prev \<and> cs \<noteq> [] then int_digits acc False cs else None)
      else (case digit_val c of
              None \<Rightarrow> None
            | Some v \<Rightarrow> int_digits (10 * acc + v) True cs))"

text \<open>
  The decimal digits of Unicode 14.0 (the tables of Python 3.11) come in runs of ten, zero to
  nine; these are the code points of the zeros.
\<close>

definition decimal_zeros :: "nat list" where
  "decimal_zeros =
     [0x30, 0x660, 0x6F0, 0x7C0, 0x966, 0x9E6, 0xA66, 0xAE6, 0xB66, 0xBE6, 0xC66, 0xCE6, 0xD66,
      0xDE6, 0xE50, 0xED0, 0xF20, 0x1040, 0x1090, 0x17E0, 0x1810, 0x1946, 0x19D0, 0x1A80,
      0x1A90, 0x1B50, 0x1BB0, 0x1C40, 0x1C50, 0xA620, 0xA8D0, 0xA900, 0xA9D0, 0xA9F0, 0xAA50,
      0xABF0, 0xFF10, 0x104A0, 0x10D30, 0x11066, 0x110F0, 0x11136, 0x111D0, 0x112F0, 0x11450,
      0x114D0, 0x11650, 0x116C0, 0x11730, 0x118E0, 0x11950, 0x11C50, 0x11D50, 0x11DA0,
      0x16A60, 0x16AC0, 0x16B50, 0x1D7CE, 0x1D7D8, 0x1D7E2, 0x1D7EC, 0x1D7F6, 0x1E140,
      0x1E2F0, 0x1E950, 0x1FBF0]"

definition unicode_decimal :: "nat \<Rightarrow> nat option" where
  "unicode_decimal cp =
     (case find (\<lambda>z. z \<le> cp \<and> cp < z + 10) decimal_zeros of
        None \<Rightarrow> None
      | Some z \<Rightarrow> Some (cp - z))"

text \<open>
  \<open>int(s)\<close> on a string first reads every character as an ASCII one: an ASCII character as
  itself, any other space as a blank, any other decimal digit as its ASCII digit, and what
  remains (a byte that does not decode too) as a question mark.
\<close>

definition int_char :: "string \<Rightarrow> char" where
  "int_char c =
     (case code_point c of
        None \<Rightarrow> CHR ''?''
      | Some cp \<Rightarrow>
          if cp < 0x80 then hd c
          else if unicode_isspace cp then CHR '' ''
          else (case unicode_decimal cp of
                  None \<Rightarrow> CHR ''?''
                | Some v \<Rightarrow> digit_char v))"

text \<open>The blanks of the C locale, which the integer parser skips at both ends.\<close>

definition c_isspace :: "char \<Rightarrow> bool" where
  "c_isspace c \<longleftrightarrow> c \<in> set [CHR 0x09, CHR 0x0A, CHR 0x0B, CHR 0x0C, CHR 0x0D, CHR '' '']"

definition digit_or_underscore :: "char \<Rightarrow> bool" where
  "digit_or_underscore c = (case digit_val c of None \<Rightarrow> c = CHR ''_'' | Some _ \<Rightarrow> True)"

text \<open>
  Then the parser of Python 3.11 skips the leading blanks, takes one optional sign and the
  longest run of digits and underscores, which must be a well-formed literal; more than 4300
  digits are refused (the default of \<open>sys.set_int_max_str_digits\<close>); only blanks may follow.
\<close>

definition py_int :: "string \<Rightarrow> error + int" where
  "py_int s =
     (let t = dropWhile c_isspace (map int_char (utf8_chars s));
          (neg, u) = (case t of
                        [] \<Rightarrow> (False, [])
                      | c # cs \<Rightarrow> if c = CHR ''-'' then (True, cs)
                                  else if c = CHR ''+'' then (False, cs)
                                  else (False, t));
          literal = takeWhile digit_or_underscore u;
          rest = dropWhile digit_or_underscore u;
          digits = length (filter (\<lambda>c. \<not> c = CHR ''_'') literal)
      in case int_digits 0 False literal of
           None \<Rightarrow> Inl (ValueError_invalid_literal s)
         | Some n \<Rightarrow>
             if 4300 < digits then Inl (ValueError_digit_limit digits)
             else if dropWhile c_isspace rest = [] then Inr (if neg then - int n else int n)
             else Inl (ValueError_invalid_literal s))"

text \<open>The calendar part of a \<open>datetime\<close>, which is all that \<open>%Y-%m-%d\<close> reads.\<close>

record date =
  year :: nat
  month :: nat
  day :: nat

fun str_nat :: "nat \<Rightarrow> string" where
  "str_nat n = (if n < 10 then [digit_char n] else str_nat (n div 10) @ [digit_char n])"

declare str_nat.simps [simp del]

definition zfill :: "nat \<Rightarrow> string \<Rightarrow> string" where
  "zfill w s = replicate (w - length s) (CHR ''0'') @ s"

text \<open>
  \<open>date.strftime("%Y-%m-%d")\<close> as the C library of Linux prints it: the year with the digits it
  has (no padding below 1000), month and day on two digits.
\<close>

definition strftime_Ymd :: "date \<Rightarrow> string" where
  "strftime_Ymd d =
     str_nat (year d) @ ''-'' @ zfill 2 (str_nat (month d)) @ ''-'' @ zfill 2 (str_nat (day d))"

section \<open>Paths\<close>

definition export_path :: "string \<Rightarrow> date \<Rightarrow> string" where
  "export_path directory d =
     ''export/'' @ directory @ ''/block_date='' @ strftime_Ymd d @ ''/''"


text \<open>\<open>os.path.join\<close> of two components and \<open>os.path.basename\<close> (POSIX).\<close>

definition os_path_join :: "string \<Rightarrow> string \<Rightarrow> string" where
  "os_path_join a b =
     (if b \<noteq> [] \<and> hd b = CHR ''/'' then b
      else if a = [] \<or> last a = CHR ''/'' then a @ b
      else a @ ''/'' @ b)"

definition basename :: "string \<Rightarrow> string" where
  "basename p = rev (takeWhile (\<lambda>c. c \<noteq> CHR ''/'') (rev p))"

section \<open>Environment configuration\<close>

type_synonym environ = "string \<rightharpoonup> string"

definition get_boolean_env_variable :: "environ \<Rightarrow> string \<Rightarrow> bool \<Rightarrow> bool" where
  "get_boolean_env_variable env env_variable_name dflt =
     (case env env_variable_name of
        None \<Rightarrow> dflt
      | Some raw_env \<Rightarrow>
          if length raw_env = 0 then dflt
          else lower raw_env \<in> set [''true'', ''yes''])"

text \<open>
  The module-level settings read from \<open>os.environ\<close>, in the order the module reads them.
\<close>

record config =
  output_bucket :: string
  web3_provider_uri :: string
  web3_provider_uri_archival :: string
  export_max_workers :: int
  export_batch_size :: int
  export_daofork_traces_option :: bool
  export_genesis_traces_option :: bool
  export_blocks_and_transactions_toggle :: bool
  export_receipts_and_logs_toggle :: bool
  export_contracts_toggle :: bool
  export_tokens_toggle :: bool
  extract_token_transfers_toggle :: bool
  export_traces_toggle :: bool

text \<open>\<open>int(os.environ.get(name, dflt))\<close> with an integer default.\<close>

definition int_env :: "environ \<Rightarrow> string \<Rightarrow> int \<Rightarrow> error + int" where
  "int_env env name dflt = (case env name of None \<Rightarrow> Inr dflt | Some s \<Rightarrow> py_int s)"

definition load_config :: "environ \<Rightarrow> error + config" where
  "load_config env =
     (case env ''OUTPUT_BUCKET'' of
        None \<Rightarrow> Inl (ValueError ''You must set OUTPUT_BUCKET environment variable'')
      | Some bucket \<Rightarrow>
          (let uri = (case env ''WEB3_PROVIDER_URI'' of
                        None \<Rightarrow> ''https://mainnet.infura.io/''
                      | Some u \<Rightarrow> u);
               archival = (case env ''WEB3_PROVIDER_URI_ARCHIVAL'' of
                             None \<Rightarrow> uri
                           | Some u \<Rightarrow> u)
           in case int_env env ''EXPORT_MAX_WORKERS'' 5 of
                Inl e \<Rightarrow> Inl e
              | Inr max_workers \<Rightarrow>
                  (case int_env env ''EXPORT_BATCH_SIZE'' 10 of
                     Inl e \<Rightarrow> Inl e
                   | Inr batch_size \<Rightarrow>
                       Inr \<lparr>output_bucket = bucket,
                            web3_provider_uri = uri,
                            web3_provider_uri_archival = archival,
                            export_max_workers = max_workers,
                            export_batch_size = batch_size,
                            export_daofork_traces_option =
                              get_boolean_env_variable env ''EXPORT_DAOFORK_TRACES_OPTION'' True,
                            export_genesis_traces_option =
                              get_boolean_env_variable env ''EXPORT_GENESIS_TRACES_OPTION'' True,
                            export_blocks_and_transactions_toggle =
                              get_boolean_env_variable env ''EXPORT_BLOCKS_AND_TRANSACTIONS'' True,
                            export_receipts_and_logs_toggle =
                              get_boolean_env_variable env ''EXPORT_RECEIPTS_AND_LOGS'' True,
                            export_contracts_toggle =
                              get_boolean_env_variable env ''EXPORT_CONTRACTS'' True,
                            export_tokens_toggle =
                              get_boolean_env_variable env ''EXPORT_TOKENS'' True,
                            extract_token_transfers_toggle =
                              get_boolean_env_variable env ''EXTRACT_TOKEN_TRANSFERS'' True,
                            export_traces_toggle =
                              get_boolean_env_variable env ''EXPORT_TRACES'' True\<rparr>)))"

text \<open>The \<open>email\<close> entry of the default arguments: absent unless the variable is non-empty.\<close>

definition notification_emails :: "environ \<Rightarrow> string list option" where
  "notification_emails env =
     (case env ''NOTIFICATION_EMAILS'' of
        None \<Rightarrow> None
      | Some s \<Rightarrow> if length s > 0 then Some (map strip (split (CHR '','') s)) else None)"

section \<open>The world a step runs in\<close>

text \<open>
  A step touches three things: the object store (bucket and object name to blob), the
  local file system (path to content, and the directories made by \<open>TemporaryDirectory\<close>),
  and the collaborators it calls. What the outside decides is read from the world: the name
  the next temporary directory gets, and whether each coming call of the storage hook reaches
  the store (an exhausted list means it does). The trace records every call of a collaborator
  with its outcome.
\<close>

datatype event =
    Download string string bool
  | Upload string string bool
  | Callback string bool
  | Read_block_range bool

record world =
  store :: "string \<times> string \<rightharpoonup> string"
  files :: "string \<rightharpoonup> string"
  dirs :: "string set"
  tmp_name :: string
  net :: "bool list"
  trace :: "event list"

type_synonym 'a step = "world \<Rightarrow> (error + 'a) \<times> world"

text \<open>Sequencing: an exception in the first statement skips the rest.\<close>

definition and_then :: "'a step \<Rightarrow> ('a \<Rightarrow> 'b step) \<Rightarrow> 'b step" where
  "and_then m f w = (case m w of (Inl e, w') \<Rightarrow> (Inl e, w') | (Inr a, w') \<Rightarrow> f a w')"

definition log :: "event \<Rightarrow> world \<Rightarrow> world" where
  "log ev w = w\<lparr>trace := trace w @ [ev]\<rparr>"

definition reaches_store :: "world \<Rightarrow> bool" where
  "reaches_store w = (case net w of [] \<Rightarrow> True | b # _ \<Rightarrow> b)"

text \<open>
  Modelled from the spec: the storage hook (Airflow's \<open>GoogleCloudStorageHook\<close>, not part of
  the repository), by the object store interface: \<open>upload\<close> fails when the local file is
  missing or the store is unreachable and otherwise overwrites the object; \<open>download\<close> fails
  when the store is unreachable or the object is not found and otherwise writes the local file.
\<close>

definition upload :: "string \<Rightarrow> string \<Rightarrow> string \<Rightarrow> unit step" where
  "upload bucket object filename w =
     (case files w filename of
        None \<Rightarrow> (Inl (FileNotFoundError filename), log (Upload bucket object False) w)
      | Some blob \<Rightarrow>
          if reaches_store w
          then (Inr (), log (Upload bucket object True)
                          (w\<lparr>store := (store w)((bucket, object) \<mapsto> blob), net := tl (net w)\<rparr>))
          else (Inl StorageError, log (Upload bucket object False) (w\<lparr>net := tl (net w)\<rparr>)))"

definition download :: "string \<Rightarrow> string \<Rightarrow> string \<Rightarrow> unit step" where
  "download bucket object filename w =
     (if reaches_store w
      then (case store w (bucket, object) of
              None \<Rightarrow> (Inl NotFoundError, log (Download bucket object False) (w\<lparr>net := tl (net w)\<rparr>))
            | Some blob \<Rightarrow>
                (Inr (), log (Download bucket object True)
                           (w\<lparr>files := (files w)(filename \<mapsto> blob), net := tl (net w)\<rparr>)))
      else (Inl StorageError, log (Download bucket object False) (w\<lparr>net := tl (net w)\<rparr>)))"

definition copy_to_export_path :: "config \<Rightarrow> string \<Rightarrow> string \<Rightarrow> unit step" where
  "copy_to_export_path cfg file_path export_path' =
     (let filename = basename file_path
      in upload (output_bucket cfg) (export_path' @ filename) file_path)"

definition copy_from_export_path :: "config \<Rightarrow> string \<Rightarrow> string \<Rightarrow> unit step" where
  "copy_from_export_path cfg export_path' file_path =
     (let filename = basename file_path
      in download (output_bucket cfg) (export_path' @ filename) file_path)"

text \<open>
  \<open>with TemporaryDirectory() as tempdir\<close>: the directory is made, the body runs, and the
  directory with everything under it is removed whether the body returned or raised.
\<close>

definition in_dir :: "string \<Rightarrow> string \<Rightarrow> bool" where
  "in_dir dir p \<longleftrightarrow> strict_prefix (os_path_join dir []) p"

definition rmtree :: "string \<Rightarrow> world \<Rightarrow> world" where
  "rmtree dir w =
     w\<lparr>files := (\<lambda>p. if in_dir dir p then None else files w p), dirs := dirs w - {dir}\<rparr>"

definition with_TemporaryDirectory :: "(string \<Rightarrow> 'a step) \<Rightarrow> 'a step" where
  "with_TemporaryDirectory body w =
     (let tempdir = tmp_name w;
          (r, w') = body tempdir (w\<lparr>dirs := insert tempdir (dirs w)\<rparr>)
      in (r, rmtree tempdir w'))"

section \<open>The units of work\<close>

text \<open>
  Modelled from the spec: the extraction callables of the \<open>ethereumetl\<close> package (not part of
  the repository), by the unit-of-work interface: each takes its named parameters and the
  content of its input file and either fails or produces the content of its declared output
  files. They are parameters of every command.
\<close>

record units =
  get_block_range_for_date :: "string \<Rightarrow> date \<Rightarrow> error + string"
  extract_csv_column :: "string \<Rightarrow> string \<Rightarrow> error + string"
  filter_items :: "string \<Rightarrow> string \<Rightarrow> error + string"
  extract_field :: "string \<Rightarrow> string \<Rightarrow> error + string"
  export_blocks_and_transactions ::
    "int \<Rightarrow> int \<Rightarrow> int \<Rightarrow> string \<Rightarrow> int \<Rightarrow> error + string \<times> string"
  export_receipts_and_logs :: "int \<Rightarrow> string \<Rightarrow> string \<Rightarrow> int \<Rightarrow> error + string \<times> string"
  export_contracts :: "int \<Rightarrow> string \<Rightarrow> int \<Rightarrow> string \<Rightarrow> error + string"
  export_tokens :: "string \<Rightarrow> int \<Rightarrow> string \<Rightarrow> error + string"
  extract_token_transfers :: "string \<Rightarrow> int \<Rightarrow> int \<Rightarrow> error + string"
  export_traces :: "int \<Rightarrow> int \<Rightarrow> int \<Rightarrow> int \<Rightarrow> string \<Rightarrow> bool \<Rightarrow> bool \<Rightarrow> error + string"

text \<open>
  One \<open>.callback(...)\<close>: the outcome is logged, and on success the output files are written
  in the order given.
\<close>

fun write_files :: "(string \<times> string) list \<Rightarrow> (string \<rightharpoonup> string) \<Rightarrow> (string \<rightharpoonup> string)" where
  "write_files [] fs = fs"
| "write_files ((p, c) # outs) fs = write_files outs (fs(p \<mapsto> c))"

definition callback :: "string \<Rightarrow> error + (string \<times> string) list \<Rightarrow> unit step" where
  "callback name result w =
     (case result of
        Inl e \<Rightarrow> (Inl e, log (Callback name False) w)
      | Inr outs \<Rightarrow> (Inr (), log (Callback name True) (w\<lparr>files := write_files outs (files w)\<rparr>)))"

text \<open>A callback that opens an input file first: a missing file is its failure.\<close>

definition callback_reading ::
  "string \<Rightarrow> string \<Rightarrow> (string \<Rightarrow> error + (string \<times> string) list) \<Rightarrow> unit step" where
  "callback_reading name input f w =
     callback name (case files w input of
                      None \<Rightarrow> Inl (FileNotFoundError input)
                    | Some content \<Rightarrow> f content) w"

definition one_output :: "string \<Rightarrow> error + string \<Rightarrow> error + (string \<times> string) list" where
  "one_output output r = (case r of Inl e \<Rightarrow> Inl e | Inr c \<Rightarrow> Inr [(output, c)])"

definition two_outputs ::
  "string \<Rightarrow> string \<Rightarrow> error + string \<times> string \<Rightarrow> error + (string \<times> string) list" where
  "two_outputs output1 output2 r =
     (case r of Inl e \<Rightarrow> Inl e | Inr (c1, c2) \<Rightarrow> Inr [(output1, c1), (output2, c2)])"

definition get_block_range_for_date_callback ::
  "units \<Rightarrow> string \<Rightarrow> date \<Rightarrow> string \<Rightarrow> unit step" where
  "get_block_range_for_date_callback units provider_uri d output =
     callback ''get_block_range_for_date''
       (one_output output (get_block_range_for_date units provider_uri d))"

definition extract_csv_column_callback ::
  "units \<Rightarrow> string \<Rightarrow> string \<Rightarrow> string \<Rightarrow> unit step" where
  "extract_csv_column_callback units input output column =
     callback_reading ''extract_csv_column'' input
       (\<lambda>content. one_output output (extract_csv_column units content column))"

definition filter_items_callback :: "units \<Rightarrow> string \<Rightarrow> string \<Rightarrow> string \<Rightarrow> unit step" where
  "filter_items_callback units input output predicate =
     callback_reading ''filter_items'' input
       (\<lambda>content. one_output output (filter_items units content predicate))"

definition extract_field_callback :: "units \<Rightarrow> string \<Rightarrow> string \<Rightarrow> string \<Rightarrow> unit step" where
  "extract_field_callback units input output field =
     callback_reading ''extract_field'' input
       (\<lambda>content. one_output output (extract_field units content field))"

definition export_blocks_and_transactions_callback ::
  "units \<Rightarrow> int \<Rightarrow> int \<Rightarrow> int \<Rightarrow> string \<Rightarrow> int \<Rightarrow> string \<Rightarrow> string \<Rightarrow> unit step" where
  "export_blocks_and_transactions_callback units start_block end_block batch_size provider_uri
       max_workers blocks_output transactions_output =
     callback ''export_blocks_and_transactions''
       (two_outputs blocks_output transactions_output
          (export_blocks_and_transactions units start_block end_block batch_size provider_uri
             max_workers))"

definition export_receipts_and_logs_callback ::
  "units \<Rightarrow> int \<Rightarrow> string \<Rightarrow> string \<Rightarrow> int \<Rightarrow> string \<Rightarrow> string \<Rightarrow> unit step" where
  "export_receipts_and_logs_callback units batch_size transaction_hashes provider_uri max_workers
       receipts_output logs_output =
     callback_reading ''export_receipts_and_logs'' transaction_hashes
       (\<lambda>content. two_outputs receipts_output logs_output
          (export_receipts_and_logs units batch_size content provider_uri max_workers))"

definition export_contracts_callback ::
  "units \<Rightarrow> int \<Rightarrow> string \<Rightarrow> string \<Rightarrow> int \<Rightarrow> string \<Rightarrow> unit step" where
  "export_contracts_callback units batch_size contract_addresses output max_workers provider_uri =
     callback_reading ''export_contracts'' contract_addresses
       (\<lambda>content. one_output output
          (export_contracts units batch_size content max_workers provider_uri))"

definition export_tokens_callback ::
  "units \<Rightarrow> string \<Rightarrow> string \<Rightarrow> int \<Rightarrow> string \<Rightarrow> unit step" where
  "export_tokens_callback units token_addresses output max_workers provider_uri =
     callback_reading ''export_tokens'' token_addresses
       (\<lambda>content. one_output output (export_tokens units content max_workers provider_uri))"

definition extract_token_transfers_callback ::
  "units \<Rightarrow> string \<Rightarrow> int \<Rightarrow> string \<Rightarrow> int \<Rightarrow> unit step" where
  "extract_token_transfers_callback units logs batch_size output max_workers =
     callback_reading ''extract_token_transfers'' logs
       (\<lambda>content. one_output output
          (extract_token_transfers units content batch_size max_workers))"

definition export_traces_callback ::
  "units \<Rightarrow> int \<Rightarrow> int \<Rightarrow> int \<Rightarrow> string \<Rightarrow> int \<Rightarrow> string \<Rightarrow> bool \<Rightarrow> bool \<Rightarrow> unit step" where
  "export_traces_callback units start_block end_block batch_size output max_workers provider_uri
       genesis_traces daofork_traces =
     callback ''export_traces''
       (one_output output
          (export_traces units start_block end_block batch_size max_workers provider_uri
             genesis_traces daofork_traces))"

section \<open>The step commands\<close>

text \<open>
  \<open>file.read()\<close> in text mode: the bytes must decode, and every line ending is read as a line
  feed.
\<close>

fun universal_newlines :: "string \<Rightarrow> string" where
  "universal_newlines [] = []"
| "universal_newlines (c # cs) =
     (if c = CHR 0x0D
      then CHR 0x0A # (case cs of
                         [] \<Rightarrow> []
                       | c' # cs' \<Rightarrow> if c' = CHR 0x0A then universal_newlines cs'
                                     else universal_newlines cs)
      else c # universal_newlines cs)"

definition read_text :: "string \<Rightarrow> error + string" where
  "read_text content =
     (if list_all (\<lambda>c. 0 < utf8_len (map of_char c)) (utf8_chars content)
      then Inr (universal_newlines content)
      else Inl UnicodeDecodeError)"

text \<open>
  Reading \<open>blocks_meta.txt\<close> back: the text is split at the commas, must have exactly two
  fields, and each field must be an integer.
\<close>

definition parse_block_range :: "string \<Rightarrow> error + int \<times> int" where
  "parse_block_range block_range =
     (case split (CHR '','') block_range of
        [start_block, end_block] \<Rightarrow>
          (case py_int start_block of
             Inl e \<Rightarrow> Inl e
           | Inr s \<Rightarrow> (case py_int end_block of Inl e \<Rightarrow> Inl e | Inr e \<Rightarrow> Inr (s, e)))
      | [_] \<Rightarrow> Inl (ValueError ''not enough values to unpack (expected 2, got 1)'')
      | _ \<Rightarrow> Inl (ValueError ''too many values to unpack (expected 2)''))"

definition read_block_range :: "string \<Rightarrow> (int \<times> int) step" where
  "read_block_range path w =
     (case (case files w path of
              None \<Rightarrow> Inl (FileNotFoundError path)
            | Some content \<Rightarrow>
                (case read_text content of
                   Inl e \<Rightarrow> Inl e
                 | Inr block_range \<Rightarrow> parse_block_range block_range)) of
        Inl e \<Rightarrow> (Inl e, log (Read_block_range False) w)
      | Inr r \<Rightarrow> (Inr r, log (Read_block_range True) w))"

definition get_block_range :: "config \<Rightarrow> units \<Rightarrow> string \<Rightarrow> date \<Rightarrow> (int \<times> int) step" where
  "get_block_range cfg units tempdir d =
     and_then (get_block_range_for_date_callback units (web3_provider_uri cfg) d
                 (os_path_join tempdir ''blocks_meta.txt''))
       (\<lambda>_. read_block_range (os_path_join tempdir ''blocks_meta.txt''))"

definition export_blocks_and_transactions_body ::
  "config \<Rightarrow> units \<Rightarrow> date \<Rightarrow> string \<Rightarrow> unit step" where
  "export_blocks_and_transactions_body cfg units execution_date tempdir =
     and_then (get_block_range cfg units tempdir execution_date) (\<lambda>(start_block, end_block).
     and_then (export_blocks_and_transactions_callback units start_block end_block
                 (export_batch_size cfg) (web3_provider_uri cfg) (export_max_workers cfg)
                 (os_path_join tempdir ''blocks.csv'')
                 (os_path_join tempdir ''transactions.csv'')) (\<lambda>_.
     and_then (copy_to_export_path cfg (os_path_join tempdir ''blocks_meta.txt'')
                 (export_path ''blocks_meta'' execution_date)) (\<lambda>_.
     and_then (copy_to_export_path cfg (os_path_join tempdir ''blocks.csv'')
                 (export_path ''blocks'' execution_date)) (\<lambda>_.
     copy_to_export_path cfg (os_path_join tempdir ''transactions.csv'')
       (export_path ''transactions'' execution_date)))))"

definition export_blocks_and_transactions_command :: "config \<Rightarrow> units \<Rightarrow> date \<Rightarrow> unit step" where
  "export_blocks_and_transactions_command cfg units execution_date =
     with_TemporaryDirectory (export_blocks_and_transactions_body cfg units execution_date)"

definition export_receipts_and_logs_body ::
  "config \<Rightarrow> units \<Rightarrow> date \<Rightarrow> string \<Rightarrow> unit step" where
  "export_receipts_and_logs_body cfg units execution_date tempdir =
     and_then (copy_from_export_path cfg (export_path ''transactions'' execution_date)
                 (os_path_join tempdir ''transactions.csv'')) (\<lambda>_.
     and_then (extract_csv_column_callback units (os_path_join tempdir ''transactions.csv'')
                 (os_path_join tempdir ''transaction_hashes.txt'') ''hash'') (\<lambda>_.
     and_then (export_receipts_and_logs_callback units (export_batch_size cfg)
                 (os_path_join tempdir ''transaction_hashes.txt'') (web3_provider_uri cfg)
                 (export_max_workers cfg) (os_path_join tempdir ''receipts.csv'')
                 (os_path_join tempdir ''logs.json'')) (\<lambda>_.
     and_then (copy_to_export_path cfg (os_path_join tempdir ''receipts.csv'')
                 (export_path ''receipts'' execution_date)) (\<lambda>_.
     copy_to_export_path cfg (os_path_join tempdir ''logs.json'')
       (export_path ''logs'' execution_date)))))"

definition export_receipts_and_logs_command :: "config \<Rightarrow> units \<Rightarrow> date \<Rightarrow> unit step" where
  "export_receipts_and_logs_command cfg units execution_date =
     with_TemporaryDirectory (export_receipts_and_logs_body cfg units execution_date)"

definition export_contracts_body :: "config \<Rightarrow> units \<Rightarrow> date \<Rightarrow> string \<Rightarrow> unit step" where
  "export_contracts_body cfg units execution_date tempdir =
     and_then (copy_from_export_path cfg (export_path ''receipts'' execution_date)
                 (os_path_join tempdir ''receipts.csv'')) (\<lambda>_.
     and_then (extract_csv_column_callback units (os_path_join tempdir ''receipts.csv'')
                 (os_path_join tempdir ''contract_addresses.txt'') ''contract_address'') (\<lambda>_.
     and_then (export_contracts_callback units (export_batch_size cfg)
                 (os_path_join tempdir ''contract_addresses.txt'')
                 (os_path_join tempdir ''contracts.json'') (export_max_workers cfg)
                 (web3_provider_uri cfg)) (\<lambda>_.
     copy_to_export_path cfg (os_path_join tempdir ''contracts.json'')
       (export_path ''contracts'' execution_date))))"

definition export_contracts_command :: "config \<Rightarrow> units \<Rightarrow> date \<Rightarrow> unit step" where
  "export_contracts_command cfg units execution_date =
     with_TemporaryDirectory (export_contracts_body cfg units execution_date)"

text \<open>The filter predicate \<open>item['is_erc20'] or item['is_erc721']\<close>, with its apostrophes.\<close>

definition token_predicate :: string where
  "token_predicate =
     ''item['' @ [CHR 0x27] @ ''is_erc20'' @ [CHR 0x27] @ ''] or item['' @ [CHR 0x27]
       @ ''is_erc721'' @ [CHR 0x27] @ '']''"

definition export_tokens_body :: "config \<Rightarrow> units \<Rightarrow> date \<Rightarrow> string \<Rightarrow> unit step" where
  "export_tokens_body cfg units execution_date tempdir =
     and_then (copy_from_export_path cfg (export_path ''contracts'' execution_date)
                 (os_path_join tempdir ''contracts.json'')) (\<lambda>_.
     and_then (filter_items_callback units (os_path_join tempdir ''contracts.json'')
                 (os_path_join tempdir ''token_contracts.json'')
                 token_predicate) (\<lambda>_.
     and_then (extract_field_callback units (os_path_join tempdir ''token_contracts.json'')
                 (os_path_join tempdir ''token_addresses.txt'') ''address'') (\<lambda>_.
     and_then (export_tokens_callback units (os_path_join tempdir ''token_addresses.txt'')
                 (os_path_join tempdir ''tokens.csv'') (export_max_workers cfg)
                 (web3_provider_uri cfg)) (\<lambda>_.
     copy_to_export_path cfg (os_path_join tempdir ''tokens.csv'')
       (export_path ''tokens'' execution_date)))))"

definition export_tokens_command :: "config \<Rightarrow> units \<Rightarrow> date \<Rightarrow> unit step" where
  "export_tokens_command cfg units execution_date =
     with_TemporaryDirectory (export_tokens_body cfg units execution_date)"

definition extract_token_transfers_body ::
  "config \<Rightarrow> units \<Rightarrow> date \<Rightarrow> string \<Rightarrow> unit step" where
  "extract_token_transfers_body cfg units execution_date tempdir =
     and_then (copy_from_export_path cfg (export_path ''logs'' execution_date)
                 (os_path_join tempdir ''logs.json'')) (\<lambda>_.
     and_then (extract_token_transfers_callback units (os_path_join tempdir ''logs.json'')
                 (export_batch_size cfg) (os_path_join tempdir ''token_transfers.csv'')
                 (export_max_workers cfg)) (\<lambda>_.
     copy_to_export_path cfg (os_path_join tempdir ''token_transfers.csv'')
       (export_path ''token_transfers'' execution_date)))"

definition extract_token_transfers_command :: "config \<Rightarrow> units \<Rightarrow> date \<Rightarrow> unit step" where
  "extract_token_transfers_command cfg units execution_date =
     with_TemporaryDirectory (extract_token_transfers_body cfg units execution_date)"

definition export_traces_body :: "config \<Rightarrow> units \<Rightarrow> date \<Rightarrow> string \<Rightarrow> unit step" where
  "export_traces_body cfg units execution_date tempdir =
     and_then (get_block_range cfg units tempdir execution_date) (\<lambda>(start_block, end_block).
     and_then (export_traces_callback units start_block end_block (export_batch_size cfg)
                 (os_path_join tempdir ''traces.csv'') (export_max_workers cfg)
                 (web3_provider_uri_archival cfg) (export_genesis_traces_option cfg)
                 (export_daofork_traces_option cfg)) (\<lambda>_.
     copy_to_export_path cfg (os_path_join tempdir ''traces.csv'')
       (export_path ''traces'' execution_date)))"

definition export_traces_command :: "config \<Rightarrow> units \<Rightarrow> date \<Rightarrow> unit step" where
  "export_traces_command cfg units execution_date =
     with_TemporaryDirectory (export_traces_body cfg units execution_date)"

section \<open>The task graph\<close>

text \<open>The six callables an operator can carry, and how each is run.\<close>

datatype command =
    Export_blocks_and_transactions_command
  | Export_receipts_and_logs_command
  | Export_contracts_command
  | Export_tokens_command
  | Extract_token_transfers_command
  | Export_traces_command

fun run_command :: "command \<Rightarrow> config \<Rightarrow> units \<Rightarrow> date \<Rightarrow> unit step" where
  "run_command Export_blocks_and_transactions_command = export_blocks_and_transactions_command"
| "run_command Export_receipts_and_logs_command = export_receipts_and_logs_command"
| "run_command Export_contracts_command = export_contracts_command"
| "run_command Export_tokens_command = export_tokens_command"
| "run_command Extract_token_transfers_command = extract_token_transfers_command"
| "run_command Export_traces_command = export_traces_command"

record operator =
  task_id :: string
  python_callable :: command
  provide_context :: bool
  execution_timeout_hours :: nat

text \<open>
  The DAG object: its identifier and schedule, the \<open>email\<close> default argument, the tasks in
  the order they were registered and the edges (upstream task, downstream task) in the order
  they were set.
\<close>

record dag =
  dag_id :: string
  schedule_interval :: string
  email :: "string list option"
  tasks :: "operator list"
  edges :: "(string \<times> string) list"

definition models_DAG :: "environ \<Rightarrow> dag" where
  "models_DAG env =
     \<lparr>dag_id = ''ethereumetl_export_dag'', schedule_interval = ''0 1 * * *'',
      email = notification_emails env, tasks = [], edges = []\<rparr>"

text \<open>
  Constructing an operator registers it in the DAG. A task identifier already present is
  refused (an exception in Airflow 2, a warning in 1.10; the stricter reading is taken).
\<close>

definition PythonOperator :: "string \<Rightarrow> command \<Rightarrow> dag \<Rightarrow> error + operator \<times> dag" where
  "PythonOperator tid callable g =
     (if tid \<in> set (map task_id (tasks g)) then Inl (DuplicateTaskIdFound tid)
      else (let operator = \<lparr>task_id = tid, python_callable = callable, provide_context = True,
                              execution_timeout_hours = 15\<rparr>
            in Inr (operator, g\<lparr>tasks := tasks g @ [operator]\<rparr>)))"

text \<open>\<open>dependency >> operator\<close>: an edge that is already there is not added again.\<close>

definition set_downstream :: "operator \<Rightarrow> operator \<Rightarrow> dag \<Rightarrow> dag" where
  "set_downstream dependency operator g =
     (if (task_id dependency, task_id operator) \<in> set (edges g) then g
      else g\<lparr>edges := edges g @ [(task_id dependency, task_id operator)]\<rparr>)"

fun wire_dependencies :: "operator option list \<Rightarrow> operator \<Rightarrow> dag \<Rightarrow> dag" where
  "wire_dependencies [] operator g = g"
| "wire_dependencies (None # dependencies) operator g = wire_dependencies dependencies operator g"
| "wire_dependencies (Some dependency # dependencies) operator g =
     wire_dependencies dependencies operator (set_downstream dependency operator g)"

definition add_export_task ::
  "bool \<Rightarrow> string \<Rightarrow> command \<Rightarrow> operator option list option \<Rightarrow> dag
     \<Rightarrow> error + operator option \<times> dag" where
  "add_export_task toggle tid callable dependencies g =
     (if toggle then
        (case PythonOperator tid callable g of
           Inl e \<Rightarrow> Inl e
         | Inr (operator, g') \<Rightarrow>
             (case dependencies of
                None \<Rightarrow> Inr (Some operator, g')
              | Some deps \<Rightarrow>
                  if length deps > 0 then Inr (Some operator, wire_dependencies deps operator g')
                  else Inr (Some operator, g')))
      else Inr (None, g))"

text \<open>The six module-level calls, in order, each seeing the operators bound before it.\<close>

definition operators :: "config \<Rightarrow> dag \<Rightarrow> error + dag" where
  "operators cfg g0 =
     (case add_export_task (export_blocks_and_transactions_toggle cfg)
             ''export_blocks_and_transactions'' Export_blocks_and_transactions_command None g0 of
        Inl e \<Rightarrow> Inl e
      | Inr (export_blocks_and_transactions_operator, g1) \<Rightarrow>
     (case add_export_task (export_receipts_and_logs_toggle cfg)
             ''export_receipts_and_logs'' Export_receipts_and_logs_command
             (Some [export_blocks_and_transactions_operator]) g1 of
        Inl e \<Rightarrow> Inl e
      | Inr (export_receipts_and_logs_operator, g2) \<Rightarrow>
     (case add_export_task (export_contracts_toggle cfg)
             ''export_contracts'' Export_contracts_command
             (Some [export_receipts_and_logs_operator]) g2 of
        Inl e \<Rightarrow> Inl e
      | Inr (export_contracts_operator, g3) \<Rightarrow>
     (case add_export_task (export_tokens_toggle cfg)
             ''export_tokens'' Export_tokens_command
             (Some [export_contracts_operator]) g3 of
        Inl e \<Rightarrow> Inl e
      | Inr (export_tokens_operator, g4) \<Rightarrow>
     (case add_export_task (extract_token_transfers_toggle cfg)
             ''extract_token_transfers'' Extract_token_transfers_command
             (Some [export_receipts_and_logs_operator]) g4 of
        Inl e \<Rightarrow> Inl e
      | Inr (extract_token_transfers_operator, g5) \<Rightarrow>
     (case add_export_task (export_traces_toggle cfg)
             ''export_traces'' Export_traces_command None g5 of
        Inl e \<Rightarrow> Inl e
      | Inr (export_traces_operator, g6) \<Rightarrow> Inr g6))))))"

text \<open>
  Loading the module: the DAG object is made, the settings are read (a missing bucket stops
  here), and the operators are registered.
\<close>

record module =
  module_config :: config
  module_dag :: dag

definition load_module :: "environ \<Rightarrow> error + module" where
  "load_module env =
     (let g0 = models_DAG env
      in case load_config env of
           Inl e \<Rightarrow> Inl e
         | Inr cfg \<Rightarrow>
             (case operators cfg g0 of
                Inl e \<Rightarrow> Inl e
              | Inr g \<Rightarrow> Inr \<lparr>module_config = cfg, module_dag = g\<rparr>))"

text \<open>
  How the scheduler runs one task instance: the module is loaded, the task is looked up by
  its identifier, and its callable is called with the execution date.
\<close>

definition execute_task :: "environ \<Rightarrow> units \<Rightarrow> string \<Rightarrow> date \<Rightarrow> unit step" where
  "execute_task env units tid execution_date w =
     (case load_module env of
        Inl e \<Rightarrow> (Inl e, w)
      | Inr m \<Rightarrow>
          (case find (\<lambda>t. task_id t = tid) (tasks (module_dag m)) of
             None \<Rightarrow> (Inl (ValueError (''no such task: '' @ tid)), w)
           | Some t \<Rightarrow>
               run_command (python_callable t) (module_config m) units execution_date w))"

text \<open>
  The canonical steps and dependency edges as the specification lists them, and the toggle
  of each step.
\<close>

definition canonical_steps :: "string list" where
  "canonical_steps =
     [''export_blocks_and_transactions'', ''export_receipts_and_logs'', ''export_contracts'',
      ''export_tokens'', ''extract_token_transfers'', ''export_traces'']"

definition canonical_edges :: "(string \<times> string) list" where
  "canonical_edges =
     [(''export_blocks_and_transactions'', ''export_receipts_and_logs''),
      (''export_receipts_and_logs'', ''export_contracts''),
      (''export_contracts'', ''export_tokens''),
      (''export_receipts_and_logs'', ''extract_token_transfers'')]"

definition enabled :: "config \<Rightarrow> string \<Rightarrow> bool" where
  "enabled cfg tid =
     (if tid = ''export_blocks_and_transactions'' then export_blocks_and_transactions_toggle cfg
      else if tid = ''export_receipts_and_logs'' then export_receipts_and_logs_toggle cfg
      else if tid = ''export_contracts'' then export_contracts_toggle cfg
      else if tid = ''export_tokens'' then export_tokens_toggle cfg
      else if tid = ''extract_token_transfers'' then extract_token_transfers_toggle cfg
      else if tid = ''export_traces'' then export_traces_toggle cfg
      else False)"

text \<open>What each command runs inside its temporary directory.\<close>

fun command_body :: "command \<Rightarrow> config \<Rightarrow> units \<Rightarrow> date \<Rightarrow> string \<Rightarrow> unit step" where
  "command_body Export_blocks_and_transactions_command = export_blocks_and_transactions_body"
| "command_body Export_receipts_and_logs_command = export_receipts_and_logs_body"
| "command_body Export_contracts_command = export_contracts_body"
| "command_body Export_tokens_command = export_tokens_body"
| "command_body Extract_token_transfers_command = extract_token_transfers_body"
| "command_body Export_traces_command = export_traces_body"

text \<open>
  Read off the commands: the artifact each one fetches first (directory and file name), if it
  fetches one, and the artifacts it publishes, in the order it publishes them.
\<close>

fun fetched :: "command \<Rightarrow> (string \<times> string) option" where
  "fetched Export_blocks_and_transactions_command = None"
| "fetched Export_receipts_and_logs_command = Some (''transactions'', ''transactions.csv'')"
| "fetched Export_contracts_command = Some (''receipts'', ''receipts.csv'')"
| "fetched Export_tokens_command = Some (''contracts'', ''contracts.json'')"
| "fetched Extract_token_transfers_command = Some (''logs'', ''logs.json'')"
| "fetched Export_traces_command = None"

fun published :: "command \<Rightarrow> (string \<times> string) list" where
  "published Export_blocks_and_transactions_command =
     [(''blocks_meta'', ''blocks_meta.txt''), (''blocks'', ''blocks.csv''),
      (''transactions'', ''transactions.csv'')]"
| "published Export_receipts_and_logs_command =
     [(''receipts'', ''receipts.csv''), (''logs'', ''logs.json'')]"
| "published Export_contracts_command = [(''contracts'', ''contracts.json'')]"
| "published Export_tokens_command = [(''tokens'', ''tokens.csv'')]"
| "published Extract_token_transfers_command = [(''token_transfers'', ''token_transfers.csv'')]"
| "published Export_traces_command = [(''traces'', ''traces.csv'')]"

text \<open>Whether a logged call is a publish, and whether it went through.\<close>

fun is_upload :: "event \<Rightarrow> bool" where
  "is_upload (Upload bucket object ok) = True"
| "is_upload (Download bucket object ok) = False"
| "is_upload (Callback name ok) = False"
| "is_upload (Read_block_range ok) = False"

fun succeeded :: "event \<Rightarrow> bool" where
  "succeeded (Upload bucket object ok) = ok"
| "succeeded (Download bucket object ok) = ok"
| "succeeded (Callback name ok) = ok"
| "succeeded (Read_block_range ok) = ok"

section \<open>A sample run\<close>

text \<open>
  One configuration, one set of units that all succeed, and an empty world, on which the
  theorems below are tried.
\<close>

definition sample_config :: config where
  "sample_config =
     \<lparr>output_bucket = ''bucket'', web3_provider_uri = ''https://mainnet.infura.io/'',
      web3_provider_uri_archival = ''https://mainnet.infura.io/'', export_max_workers = 5,
      export_batch_size = 10, export_daofork_traces_option = True,
      export_genesis_traces_option = True, export_blocks_and_transactions_toggle = True,
      export_receipts_and_logs_toggle = True, export_contracts_toggle = True,
      export_tokens_toggle = True, extract_token_transfers_toggle = True,
      export_traces_toggle = True\<rparr>"

definition sample_units :: units where
  "sample_units =
     \<lparr>get_block_range_for_date = (\<lambda>provider_uri d. Inr ''100,200''),
      extract_csv_column = (\<lambda>content column. Inr (''column '' @ column)),
      filter_items = (\<lambda>content predicate. Inr ''filtered''),
      extract_field = (\<lambda>content field. Inr (''field '' @ field)),
      export_blocks_and_transactions =
        (\<lambda>start_block end_block batch_size provider_uri max_workers.
           Inr (''blocks'', ''transactions'')),
      export_receipts_and_logs =
        (\<lambda>batch_size transaction_hashes provider_uri max_workers. Inr (''receipts'', ''logs'')),
      export_contracts =
        (\<lambda>batch_size contract_addresses max_workers provider_uri. Inr ''contracts''),
      export_tokens = (\<lambda>token_addresses max_workers provider_uri. Inr ''tokens''),
      extract_token_transfers = (\<lambda>logs batch_size max_workers. Inr ''token transfers''),
      export_traces =
        (\<lambda>start_block end_block batch_size max_workers provider_uri genesis_traces
            daofork_traces. Inr ''traces'')\<rparr>"

definition sample_world :: world where
  "sample_world =
     \<lparr>store = Map.empty, files = Map.empty, dirs = {}, tmp_name = ''/tmp/tmpab12'', net = [],
      trace = []\<rparr>"

section \<open>Decimal digits, dates and paths\<close>

















lemma get_boolean_env_variable_unset:
  "env name = None \<or> env name = Some [] \<Longrightarrow> get_boolean_env_variable env name dflt = dflt"
  by (auto simp: get_boolean_env_variable_def)

lemma get_boolean_env_variable_set:
  "env name = Some raw \<Longrightarrow> raw \<noteq> [] \<Longrightarrow>
     get_boolean_env_variable env name dflt = (lower raw = ''true'' \<or> lower raw = ''yes'')"
  by (simp add: get_boolean_env_variable_def)

lemma lower_examples:
  "lower ''1'' = ''1''" "lower ''enabled'' = ''enabled''" "lower ''True '' = ''true ''"
  "lower ''TRUE'' = ''true''" "lower ''Yes'' = ''yes''"
  by (simp_all add: lower_def lower_char_def)

lemma load_config_flags:
  assumes "load_config env = Inr cfg"
  shows "export_daofork_traces_option cfg = get_boolean_env_variable env ''EXPORT_DAOFORK_TRACES_OPTION'' True"
    and "export_genesis_traces_option cfg = get_boolean_env_variable env ''EXPORT_GENESIS_TRACES_OPTION'' True"
    and "export_blocks_and_transactions_toggle cfg = get_boolean_env_variable env ''EXPORT_BLOCKS_AND_TRANSACTIONS'' True"
    and "export_receipts_and_logs_toggle cfg = get_boolean_env_variable env ''EXPORT_RECEIPTS_AND_LOGS'' True"
    and "export_contracts_toggle cfg = get_boolean_env_variable env ''EXPORT_CONTRACTS'' True"
    and "export_tokens_toggle cfg = get_boolean_env_variable env ''EXPORT_TOKENS'' True"
    and "extract_token_transfers_toggle cfg = get_boolean_env_variable env ''EXTRACT_TOKEN_TRANSFERS'' True"
    and "export_traces_toggle cfg = get_boolean_env_variable env ''EXPORT_TRACES'' True"
  using assms
  by (auto simp: load_config_def Let_def split: option.splits sum.splits)

lemma operators_char:
  "\<exists>g. operators cfg (models_DAG env) = Inr g
     \<and> map task_id (tasks g) = filter (enabled cfg) canonical_steps
     \<and> edges g = filter (\<lambda>(a, b). enabled cfg a \<and> enabled cfg b) canonical_edges
     \<and> email g = notification_emails env"
  by (cases "export_blocks_and_transactions_toggle cfg";
      cases "export_receipts_and_logs_toggle cfg";
      cases "export_contracts_toggle cfg";
      cases "export_tokens_toggle cfg";
      cases "extract_token_transfers_toggle cfg";
      cases "export_traces_toggle cfg")
     (simp_all add: operators_def add_export_task_def PythonOperator_def set_downstream_def
        models_DAG_def canonical_steps_def canonical_edges_def enabled_def Let_def)

lemma takeWhile_no_slash:
  "CHR ''/'' \<notin> set f \<Longrightarrow> takeWhile (\<lambda>c. c \<noteq> CHR ''/'') (rev f) = rev f"
  by (auto simp: takeWhile_eq_all_conv)

lemma basename_append:
  assumes "CHR ''/'' \<notin> set f" "x = [] \<or> last x = CHR ''/''"
  shows "basename (x @ f) = f"
proof (cases x rule: rev_cases)
  case Nil
  with assms(1) show ?thesis
    by (simp add: basename_def takeWhile_no_slash)
next
  case (snoc ys y)
  with assms(2) have y: "y = CHR ''/''" by simp
  have "takeWhile (\<lambda>c. c \<noteq> CHR ''/'') (rev f @ CHR ''/'' # rev ys)
      = takeWhile (\<lambda>c. c \<noteq> CHR ''/'') (rev f)"
    by (rule takeWhile_tail) simp
  then show ?thesis
    using assms(1) by (simp add: basename_def snoc y takeWhile_no_slash)
qed

lemma basename_os_path_join:
  assumes "CHR ''/'' \<notin> set f"
  shows "basename (os_path_join tempdir f) = f"
proof -
  have hd: "f \<noteq> [] \<Longrightarrow> hd f \<noteq> CHR ''/''"
    using assms by (cases f) auto
  show ?thesis
  proof (cases "tempdir = [] \<or> last tempdir = CHR ''/''")
    case True
    then have "os_path_join tempdir f = tempdir @ f"
      using hd by (auto simp: os_path_join_def)
    then show ?thesis using basename_append [OF assms True] by simp
  next
    case False
    then have "os_path_join tempdir f = (tempdir @ ''/'') @ f"
      using hd by (auto simp: os_path_join_def)
    then show ?thesis using basename_append [OF assms, of "tempdir @ ''/''"] by simp
  qed
qed









lemmas step_defs =
  and_then_def log_def reaches_store_def upload_def download_def copy_to_export_path_def
  copy_from_export_path_def callback_def callback_reading_def one_output_def two_outputs_def
  get_block_range_for_date_callback_def extract_csv_column_callback_def
  filter_items_callback_def extract_field_callback_def
  export_blocks_and_transactions_callback_def export_receipts_and_logs_callback_def
  export_contracts_callback_def export_tokens_callback_def
  extract_token_transfers_callback_def export_traces_callback_def read_block_range_def
  get_block_range_def


lemma with_TemporaryDirectory_eq:
  "with_TemporaryDirectory body w =
     (fst (body (tmp_name w) (w\<lparr>dirs := insert (tmp_name w) (dirs w)\<rparr>)),
      rmtree (tmp_name w) (snd (body (tmp_name w) (w\<lparr>dirs := insert (tmp_name w) (dirs w)\<rparr>))))"
  by (simp add: with_TemporaryDirectory_def Let_def split: prod.splits)



lemma py_int_100: "py_int ''100'' = Inr 100"
  by (simp add: py_int_def utf8_len_def int_char_def code_point_def c_isspace_def
      digit_or_underscore_def digit_val_def Let_def)

lemma py_int_200: "py_int ''200'' = Inr 200"
  by (simp add: py_int_def utf8_len_def int_char_def code_point_def c_isspace_def
      digit_or_underscore_def digit_val_def Let_def)

lemma sample_block_range:
  "read_text ''100,200'' = Inr ''100,200''" "parse_block_range ''100,200'' = Inr (100, 200)"
  by (simp_all add: read_text_def utf8_len_def parse_block_range_def py_int_100 py_int_200)

lemma sample_blocks_run:
  "fst (export_blocks_and_transactions_command sample_config sample_units
          \<lparr>year = 2021, month = 3, day = 1\<rparr> sample_world) = Inr ()"
  by (simp add: export_blocks_and_transactions_command_def with_TemporaryDirectory_eq
      export_blocks_and_transactions_body_def step_defs sample_config_def sample_units_def
      sample_world_def sample_block_range os_path_join_def basename_def)




text \<open>
  C10. For a flag read through \<open>get_boolean_env_variable\<close>, an unset or empty value yields the
  default; a non-empty value yields true exactly when its lowercased text is \<open>true\<close> or
  \<open>yes\<close>, so \<open>1\<close>, \<open>enabled\<close> and \<open>True\<close> followed by a space disable the flag. Every step
  toggle and both traces options are read with the default true.
\<close>

theorem toggle_parsing:
  "(env name = None \<or> env name = Some [] \<longrightarrow> get_boolean_env_variable env name dflt = dflt)
   \<and> (\<forall>raw. env name = Some raw \<and> raw \<noteq> [] \<longrightarrow>
         get_boolean_env_variable env name dflt = (lower raw = ''true'' \<or> lower raw = ''yes''))
   \<and> (\<forall>raw. env name = Some raw \<and> raw \<in> {''1'', ''enabled'', ''True ''} \<longrightarrow>
         \<not> get_boolean_env_variable env name dflt)
   \<and> (\<forall>cfg. load_config env = Inr cfg \<longrightarrow>
         export_daofork_traces_option cfg
           = get_boolean_env_variable env ''EXPORT_DAOFORK_TRACES_OPTION'' True
       \<and> export_genesis_traces_option cfg
           = get_boolean_env_variable env ''EXPORT_GENESIS_TRACES_OPTION'' True
       \<and> export_blocks_and_transactions_toggle cfg
           = get_boolean_env_variable env ''EXPORT_BLOCKS_AND_TRANSACTIONS'' True
       \<and> export_receipts_and_logs_toggle cfg
           = get_boolean_env_variable env ''EXPORT_RECEIPTS_AND_LOGS'' True
       \<and> export_contracts_toggle cfg = get_boolean_env_variable env ''EXPORT_CONTRACTS'' True
       \<and> export_tokens_toggle cfg = get_boolean_env_variable env ''EXPORT_TOKENS'' True
       \<and> extract_token_transfers_toggle cfg
           = get_boolean_env_variable env ''EXTRACT_TOKEN_TRANSFERS'' True
       \<and> export_traces_toggle cfg = get_boolean_env_variable env ''EXPORT_TRACES'' True)"
proof (intro conjI allI impI)
  show "get_boolean_env_variable env name dflt = dflt"
    if "env name = None \<or> env name = Some []"
    using that by (rule get_boolean_env_variable_unset)
  show "get_boolean_env_variable env name dflt = (lower raw = ''true'' \<or> lower raw = ''yes'')"
    if "env name = Some raw \<and> raw \<noteq> []" for raw
    using that by (simp add: get_boolean_env_variable_set)
  show "\<not> get_boolean_env_variable env name dflt"
    if "env name = Some raw \<and> raw \<in> {''1'', ''enabled'', ''True ''}" for raw
    using that by (auto simp: get_boolean_env_variable_set lower_examples)
qed (simp_all add: load_config_flags)

theorem toggle_parsing_witness:
  "get_boolean_env_variable Map.empty ''EXPORT_TRACES'' True
   \<and> get_boolean_env_variable [''EXPORT_TRACES'' \<mapsto> ''''] ''EXPORT_TRACES'' True
   \<and> get_boolean_env_variable [''EXPORT_TRACES'' \<mapsto> ''YES''] ''EXPORT_TRACES'' False
   \<and> \<not> get_boolean_env_variable [''EXPORT_TRACES'' \<mapsto> ''1''] ''EXPORT_TRACES'' True
   \<and> \<not> get_boolean_env_variable [''EXPORT_TRACES'' \<mapsto> ''True ''] ''EXPORT_TRACES'' True"
proof -
  have "get_boolean_env_variable Map.empty ''EXPORT_TRACES'' True"
    using toggle_parsing [of Map.empty "''EXPORT_TRACES''" True, THEN conjunct1] by simp
  moreover have "get_boolean_env_variable [''EXPORT_TRACES'' \<mapsto> ''''] ''EXPORT_TRACES'' True"
    using toggle_parsing [of "[''EXPORT_TRACES'' \<mapsto> '''']" "''EXPORT_TRACES''" True,
            THEN conjunct1]
    by simp
  moreover have "get_boolean_env_variable [''EXPORT_TRACES'' \<mapsto> ''YES''] ''EXPORT_TRACES'' False"
    using toggle_parsing [of "[''EXPORT_TRACES'' \<mapsto> ''YES'']" "''EXPORT_TRACES''" False,
            THEN conjunct2, THEN conjunct1, rule_format, of "''YES''"]
    by (simp add: lower_def lower_char_def)
  moreover have "\<not> get_boolean_env_variable [''EXPORT_TRACES'' \<mapsto> ''1''] ''EXPORT_TRACES'' True"
    using toggle_parsing [of "[''EXPORT_TRACES'' \<mapsto> ''1'']" "''EXPORT_TRACES''" True,
            THEN conjunct2, THEN conjunct2, THEN conjunct1, rule_format, of "''1''"]
    by simp
  moreover have
    "\<not> get_boolean_env_variable [''EXPORT_TRACES'' \<mapsto> ''True ''] ''EXPORT_TRACES'' True"
    using toggle_parsing [of "[''EXPORT_TRACES'' \<mapsto> ''True '']" "''EXPORT_TRACES''" True,
            THEN conjunct2, THEN conjunct2, THEN conjunct1, rule_format, of "''True ''"]
    by simp
  ultimately show ?thesis by blast
qed

section \<open>The task graph built from the toggles\<close>

lemma canonical_edges_one_producer:
  "(p, c) \<in> set canonical_edges \<Longrightarrow> (q, c) \<in> set canonical_edges \<Longrightarrow> p = q"
  by (auto simp: canonical_edges_def)

text \<open>
  C2. With all six toggles false the built graph has no node and no edge; with all six true
  it has exactly the six declared steps, each with its own callable, and exactly the four
  declared edges, none of which touches \<open>export_traces\<close>.
\<close>

theorem toggle_completeness:
  "(\<not> export_blocks_and_transactions_toggle cfg \<and> \<not> export_receipts_and_logs_toggle cfg
      \<and> \<not> export_contracts_toggle cfg \<and> \<not> export_tokens_toggle cfg
      \<and> \<not> extract_token_transfers_toggle cfg \<and> \<not> export_traces_toggle cfg \<longrightarrow>
      (\<exists>g. operators cfg (models_DAG env) = Inr g \<and> tasks g = [] \<and> edges g = []))
   \<and> (export_blocks_and_transactions_toggle cfg \<and> export_receipts_and_logs_toggle cfg
      \<and> export_contracts_toggle cfg \<and> export_tokens_toggle cfg
      \<and> extract_token_transfers_toggle cfg \<and> export_traces_toggle cfg \<longrightarrow>
      (\<exists>g. operators cfg (models_DAG env) = Inr g
         \<and> map task_id (tasks g) =
             [''export_blocks_and_transactions'', ''export_receipts_and_logs'',
              ''export_contracts'', ''export_tokens'', ''extract_token_transfers'',
              ''export_traces'']
         \<and> map python_callable (tasks g) =
             [Export_blocks_and_transactions_command, Export_receipts_and_logs_command,
              Export_contracts_command, Export_tokens_command, Extract_token_transfers_command,
              Export_traces_command]
         \<and> edges g =
             [(''export_blocks_and_transactions'', ''export_receipts_and_logs''),
              (''export_receipts_and_logs'', ''export_contracts''),
              (''export_contracts'', ''export_tokens''),
              (''export_receipts_and_logs'', ''extract_token_transfers'')]
         \<and> ''export_traces'' \<notin> fst ` set (edges g)
         \<and> ''export_traces'' \<notin> snd ` set (edges g)))"
  by (simp add: operators_def add_export_task_def PythonOperator_def set_downstream_def
        models_DAG_def Let_def)

theorem toggle_completeness_witness:
  "(\<exists>g. operators
          \<lparr>output_bucket = ''bucket'', web3_provider_uri = ''uri'',
           web3_provider_uri_archival = ''uri'', export_max_workers = 5,
           export_batch_size = 10, export_daofork_traces_option = True,
           export_genesis_traces_option = True,
           export_blocks_and_transactions_toggle = False,
           export_receipts_and_logs_toggle = False, export_contracts_toggle = False,
           export_tokens_toggle = False, extract_token_transfers_toggle = False,
           export_traces_toggle = False\<rparr> (models_DAG Map.empty) = Inr g
        \<and> tasks g = [] \<and> edges g = [])
   \<and> (\<exists>g. operators
          \<lparr>output_bucket = ''bucket'', web3_provider_uri = ''uri'',
           web3_provider_uri_archival = ''uri'', export_max_workers = 5,
           export_batch_size = 10, export_daofork_traces_option = True,
           export_genesis_traces_option = True,
           export_blocks_and_transactions_toggle = True,
           export_receipts_and_logs_toggle = True, export_contracts_toggle = True,
           export_tokens_toggle = True, extract_token_transfers_toggle = True,
           export_traces_toggle = True\<rparr> (models_DAG Map.empty) = Inr g
        \<and> length (tasks g) = 6 \<and> length (edges g) = 4)"
proof -
  let ?off = "\<lparr>output_bucket = ''bucket'', web3_provider_uri = ''uri'',
           web3_provider_uri_archival = ''uri'', export_max_workers = 5,
           export_batch_size = 10, export_daofork_traces_option = True,
           export_genesis_traces_option = True,
           export_blocks_and_transactions_toggle = False,
           export_receipts_and_logs_toggle = False, export_contracts_toggle = False,
           export_tokens_toggle = False, extract_token_transfers_toggle = False,
           export_traces_toggle = False\<rparr>"
  let ?on = "\<lparr>output_bucket = ''bucket'', web3_provider_uri = ''uri'',
           web3_provider_uri_archival = ''uri'', export_max_workers = 5,
           export_batch_size = 10, export_daofork_traces_option = True,
           export_genesis_traces_option = True,
           export_blocks_and_transactions_toggle = True,
           export_receipts_and_logs_toggle = True, export_contracts_toggle = True,
           export_tokens_toggle = True, extract_token_transfers_toggle = True,
           export_traces_toggle = True\<rparr>"
  have "\<exists>g. operators ?off (models_DAG Map.empty) = Inr g \<and> tasks g = [] \<and> edges g = []"
    using toggle_completeness [of ?off Map.empty, THEN conjunct1] by simp
  moreover have "\<exists>g. operators ?on (models_DAG Map.empty) = Inr g
      \<and> length (tasks g) = 6 \<and> length (edges g) = 4"
  proof -
    from toggle_completeness [of ?on Map.empty, THEN conjunct2]
    obtain g where g: "operators ?on (models_DAG Map.empty) = Inr g"
      and t: "map task_id (tasks g) =
             [''export_blocks_and_transactions'', ''export_receipts_and_logs'',
              ''export_contracts'', ''export_tokens'', ''extract_token_transfers'',
              ''export_traces'']"
      and e: "edges g =
             [(''export_blocks_and_transactions'', ''export_receipts_and_logs''),
              (''export_receipts_and_logs'', ''export_contracts''),
              (''export_contracts'', ''export_tokens''),
              (''export_receipts_and_logs'', ''extract_token_transfers'')]"
      by auto
    from t have "length (map task_id (tasks g)) = 6" by simp
    then have "length (tasks g) = 6" by simp
    with g e show ?thesis by simp
  qed
  ultimately show ?thesis by blast
qed

text \<open>
  C3. For every assignment of the six toggles the graph is built without error; its nodes
  are exactly the enabled steps, in the canonical order, so a disabled step contributes no
  node; a canonical edge is present exactly when both its endpoints are enabled, and there
  is no other edge; an enabled consumer whose producer is disabled has no predecessor edge.
\<close>

theorem edge_elision:
  "\<exists>g. operators cfg (models_DAG env) = Inr g
     \<and> map task_id (tasks g) = filter (enabled cfg) canonical_steps
     \<and> (\<forall>tid. \<not> enabled cfg tid \<longrightarrow> tid \<notin> set (map task_id (tasks g)))
     \<and> (\<forall>e \<in> set canonical_edges.
           e \<in> set (edges g) \<longleftrightarrow> enabled cfg (fst e) \<and> enabled cfg (snd e))
     \<and> set (edges g) \<subseteq> set canonical_edges
     \<and> (\<forall>p c. (p, c) \<in> set canonical_edges \<and> enabled cfg c \<and> \<not> enabled cfg p \<longrightarrow>
           (\<forall>q. (q, c) \<notin> set (edges g)))"
proof -
  from operators_char [of cfg env] obtain g
    where g: "operators cfg (models_DAG env) = Inr g"
      and t: "map task_id (tasks g) = filter (enabled cfg) canonical_steps"
      and e: "edges g = filter (\<lambda>(a, b). enabled cfg a \<and> enabled cfg b) canonical_edges"
    by blast
  have "\<forall>tid. \<not> enabled cfg tid \<longrightarrow> tid \<notin> set (map task_id (tasks g))"
    by (simp add: t)
  moreover have "\<forall>e \<in> set canonical_edges.
      e \<in> set (edges g) \<longleftrightarrow> enabled cfg (fst e) \<and> enabled cfg (snd e)"
    by (auto simp: e)
  moreover have "set (edges g) \<subseteq> set canonical_edges"
    by (auto simp: e)
  moreover have "\<forall>p c. (p, c) \<in> set canonical_edges \<and> enabled cfg c \<and> \<not> enabled cfg p \<longrightarrow>
      (\<forall>q. (q, c) \<notin> set (edges g))"
  proof (intro allI impI notI)
    fix p c q
    assume a: "(p, c) \<in> set canonical_edges \<and> enabled cfg c \<and> \<not> enabled cfg p"
      and q: "(q, c) \<in> set (edges g)"
    from q have "(q, c) \<in> set canonical_edges" and "enabled cfg q"
      by (auto simp: e)
    with a canonical_edges_one_producer [of p c q] show False by simp
  qed
  ultimately show ?thesis using g t by blast
qed

theorem edge_elision_witness:
  "\<exists>g. operators (sample_config\<lparr>export_blocks_and_transactions_toggle := False\<rparr>)
          (models_DAG Map.empty) = Inr g
     \<and> map task_id (tasks g) =
         [''export_receipts_and_logs'', ''export_contracts'', ''export_tokens'',
          ''extract_token_transfers'', ''export_traces'']
     \<and> (''export_receipts_and_logs'', ''export_contracts'') \<in> set (edges g)
     \<and> (\<forall>q. (q, ''export_receipts_and_logs'') \<notin> set (edges g))"
proof -
  let ?cfg = "sample_config\<lparr>export_blocks_and_transactions_toggle := False\<rparr>"
  from edge_elision [of ?cfg Map.empty] obtain g
    where g: "operators ?cfg (models_DAG Map.empty) = Inr g"
      and t: "map task_id (tasks g) = filter (enabled ?cfg) canonical_steps"
      and e: "\<forall>e \<in> set canonical_edges.
                e \<in> set (edges g) \<longleftrightarrow> enabled ?cfg (fst e) \<and> enabled ?cfg (snd e)"
      and n: "\<forall>p c. (p, c) \<in> set canonical_edges \<and> enabled ?cfg c \<and> \<not> enabled ?cfg p \<longrightarrow>
                (\<forall>q. (q, c) \<notin> set (edges g))"
    by blast
  have "map task_id (tasks g) =
         [''export_receipts_and_logs'', ''export_contracts'', ''export_tokens'',
          ''extract_token_transfers'', ''export_traces'']"
    by (simp add: t enabled_def canonical_steps_def sample_config_def)
  moreover have "(''export_receipts_and_logs'', ''export_contracts'') \<in> set (edges g)"
    using e [rule_format, of "(''export_receipts_and_logs'', ''export_contracts'')"]
    by (simp add: enabled_def canonical_edges_def sample_config_def)
  moreover have "\<forall>q. (q, ''export_receipts_and_logs'') \<notin> set (edges g)"
    using n [rule_format, of "''export_blocks_and_transactions''" "''export_receipts_and_logs''"]
    by (simp add: enabled_def canonical_edges_def sample_config_def)
  ultimately show ?thesis using g by - (intro exI [of _ g] conjI, assumption+)
qed

section \<open>Loading the configuration\<close>

lemma load_module_Inl: "load_module env = Inl e \<longleftrightarrow> load_config env = Inl e"
proof (cases "load_config env")
  case (Inl e')
  then show ?thesis by (simp add: load_module_def Let_def)
next
  case (Inr cfg)
  from operators_char [of cfg env] obtain g where "operators cfg (models_DAG env) = Inr g"
    by blast
  with Inr show ?thesis by (simp add: load_module_def Let_def)
qed

lemma load_module_Inr:
  assumes "load_module env = Inr m"
  shows "load_config env = Inr (module_config m)"
    and "operators (module_config m) (models_DAG env) = Inr (module_dag m)"
  using assms by (auto simp: load_module_def Let_def split: sum.splits)

lemma load_config_Inl:
  assumes "load_config env = Inl e"
  shows "(env ''OUTPUT_BUCKET'' = None
            \<and> e = ValueError ''You must set OUTPUT_BUCKET environment variable'')
       \<or> (\<exists>s. env ''EXPORT_MAX_WORKERS'' = Some s \<and> py_int s = Inl e)
       \<or> (\<exists>s. env ''EXPORT_BATCH_SIZE'' = Some s \<and> py_int s = Inl e)"
  using assms
  by (auto simp: load_config_def Let_def int_env_def split: option.splits sum.splits)

lemma load_config_defaults:
  assumes "load_config env = Inr cfg"
  shows "env ''OUTPUT_BUCKET'' = Some (output_bucket cfg)"
    and "env ''WEB3_PROVIDER_URI'' = None \<Longrightarrow> web3_provider_uri cfg = ''https://mainnet.infura.io/''"
    and "env ''WEB3_PROVIDER_URI_ARCHIVAL'' = None \<Longrightarrow>
           web3_provider_uri_archival cfg = web3_provider_uri cfg"
    and "env ''EXPORT_MAX_WORKERS'' = None \<Longrightarrow> export_max_workers cfg = 5"
    and "env ''EXPORT_BATCH_SIZE'' = None \<Longrightarrow> export_batch_size cfg = 10"
  using assms
  by (auto simp: load_config_def Let_def int_env_def split: option.splits sum.splits)

text \<open>
  C9. Without \<open>OUTPUT_BUCKET\<close> loading the module raises the \<open>ValueError\<close> of the source, so no
  task of the DAG runs: executing any task returns that error and leaves the world as it
  was. No other setting is required: loading fails only for a missing bucket or for a worker
  count or batch size that is present and not an integer, so with the bucket set and those two
  absent the module loads; and in a loaded module every absent setting has its default (the
  Infura endpoint, the archival endpoint equal to the primary one, 5 workers, batches of 10,
  every toggle and both traces options true, no notification recipients).
\<close>

theorem required_configuration:
  "(env ''OUTPUT_BUCKET'' = None \<longrightarrow>
      load_module env = Inl (ValueError ''You must set OUTPUT_BUCKET environment variable'')
      \<and> (\<forall>units tid d w.
            execute_task env units tid d w
              = (Inl (ValueError ''You must set OUTPUT_BUCKET environment variable''), w)))
   \<and> (\<forall>e. load_module env = Inl e \<longrightarrow>
         (env ''OUTPUT_BUCKET'' = None
            \<and> e = ValueError ''You must set OUTPUT_BUCKET environment variable'')
         \<or> (\<exists>s. env ''EXPORT_MAX_WORKERS'' = Some s \<and> py_int s = Inl e)
         \<or> (\<exists>s. env ''EXPORT_BATCH_SIZE'' = Some s \<and> py_int s = Inl e))
   \<and> (\<forall>bucket. env ''OUTPUT_BUCKET'' = Some bucket \<and> env ''EXPORT_MAX_WORKERS'' = None
           \<and> env ''EXPORT_BATCH_SIZE'' = None \<longrightarrow>
         (\<exists>m. load_module env = Inr m \<and> output_bucket (module_config m) = bucket))
   \<and> (\<forall>m. load_module env = Inr m \<longrightarrow>
         (env ''WEB3_PROVIDER_URI'' = None \<longrightarrow>
            web3_provider_uri (module_config m) = ''https://mainnet.infura.io/'')
       \<and> (env ''WEB3_PROVIDER_URI_ARCHIVAL'' = None \<longrightarrow>
            web3_provider_uri_archival (module_config m) = web3_provider_uri (module_config m))
       \<and> (env ''EXPORT_MAX_WORKERS'' = None \<longrightarrow> export_max_workers (module_config m) = 5)
       \<and> (env ''EXPORT_BATCH_SIZE'' = None \<longrightarrow> export_batch_size (module_config m) = 10)
       \<and> (env ''EXPORT_DAOFORK_TRACES_OPTION'' = None \<longrightarrow>
            export_daofork_traces_option (module_config m))
       \<and> (env ''EXPORT_GENESIS_TRACES_OPTION'' = None \<longrightarrow>
            export_genesis_traces_option (module_config m))
       \<and> (env ''EXPORT_BLOCKS_AND_TRANSACTIONS'' = None \<longrightarrow>
            export_blocks_and_transactions_toggle (module_config m))
       \<and> (env ''EXPORT_RECEIPTS_AND_LOGS'' = None \<longrightarrow>
            export_receipts_and_logs_toggle (module_config m))
       \<and> (env ''EXPORT_CONTRACTS'' = None \<longrightarrow> export_contracts_toggle (module_config m))
       \<and> (env ''EXPORT_TOKENS'' = None \<longrightarrow> export_tokens_toggle (module_config m))
       \<and> (env ''EXTRACT_TOKEN_TRANSFERS'' = None \<longrightarrow>
            extract_token_transfers_toggle (module_config m))
       \<and> (env ''EXPORT_TRACES'' = None \<longrightarrow> export_traces_toggle (module_config m))
       \<and> (env ''NOTIFICATION_EMAILS'' = None \<longrightarrow> email (module_dag m) = None))"
proof (intro conjI allI impI)
  assume none: "env ''OUTPUT_BUCKET'' = None"
  then have cfg: "load_config env
      = Inl (ValueError ''You must set OUTPUT_BUCKET environment variable'')"
    by (simp add: load_config_def)
  then show load: "load_module env
      = Inl (ValueError ''You must set OUTPUT_BUCKET environment variable'')"
    by (simp add: load_module_Inl)
  show "execute_task env units tid d w
      = (Inl (ValueError ''You must set OUTPUT_BUCKET environment variable''), w)"
    for units tid d w
    by (simp add: execute_task_def load)
next
  fix e
  assume "load_module env = Inl e"
  then have "load_config env = Inl e" by (simp add: load_module_Inl)
  then show "(env ''OUTPUT_BUCKET'' = None
            \<and> e = ValueError ''You must set OUTPUT_BUCKET environment variable'')
         \<or> (\<exists>s. env ''EXPORT_MAX_WORKERS'' = Some s \<and> py_int s = Inl e)
         \<or> (\<exists>s. env ''EXPORT_BATCH_SIZE'' = Some s \<and> py_int s = Inl e)"
    by (rule load_config_Inl)
next
  fix bucket
  assume a: "env ''OUTPUT_BUCKET'' = Some bucket \<and> env ''EXPORT_MAX_WORKERS'' = None
           \<and> env ''EXPORT_BATCH_SIZE'' = None"
  show "\<exists>m. load_module env = Inr m \<and> output_bucket (module_config m) = bucket"
  proof (cases "load_module env")
    case (Inl e)
    then have "load_config env = Inl e" by (simp add: load_module_Inl)
    from load_config_Inl [OF this] a show ?thesis by auto
  next
    case (Inr m)
    from load_module_Inr(1) [OF this] have "env ''OUTPUT_BUCKET'' = Some (output_bucket (module_config m))"
      by (rule load_config_defaults(1))
    with a Inr show ?thesis by simp
  qed
next
  fix m
  assume m: "load_module env = Inr m"
  note cfg = load_module_Inr(1) [OF m]
  note flags = load_config_flags [OF cfg]
  show "web3_provider_uri (module_config m) = ''https://mainnet.infura.io/''"
    if "env ''WEB3_PROVIDER_URI'' = None"
    using that by (rule load_config_defaults(2) [OF cfg])
  show "web3_provider_uri_archival (module_config m) = web3_provider_uri (module_config m)"
    if "env ''WEB3_PROVIDER_URI_ARCHIVAL'' = None"
    using that by (rule load_config_defaults(3) [OF cfg])
  show "export_max_workers (module_config m) = 5" if "env ''EXPORT_MAX_WORKERS'' = None"
    using that by (rule load_config_defaults(4) [OF cfg])
  show "export_batch_size (module_config m) = 10" if "env ''EXPORT_BATCH_SIZE'' = None"
    using that by (rule load_config_defaults(5) [OF cfg])
  show "export_daofork_traces_option (module_config m)"
    if "env ''EXPORT_DAOFORK_TRACES_OPTION'' = None"
    using that by (simp add: flags get_boolean_env_variable_def)
  show "export_genesis_traces_option (module_config m)"
    if "env ''EXPORT_GENESIS_TRACES_OPTION'' = None"
    using that by (simp add: flags get_boolean_env_variable_def)
  show "export_blocks_and_transactions_toggle (module_config m)"
    if "env ''EXPORT_BLOCKS_AND_TRANSACTIONS'' = None"
    using that by (simp add: flags get_boolean_env_variable_def)
  show "export_receipts_and_logs_toggle (module_config m)"
    if "env ''EXPORT_RECEIPTS_AND_LOGS'' = None"
    using that by (simp add: flags get_boolean_env_variable_def)
  show "export_contracts_toggle (module_config m)" if "env ''EXPORT_CONTRACTS'' = None"
    using that by (simp add: flags get_boolean_env_variable_def)
  show "export_tokens_toggle (module_config m)" if "env ''EXPORT_TOKENS'' = None"
    using that by (simp add: flags get_boolean_env_variable_def)
  show "extract_token_transfers_toggle (module_config m)"
    if "env ''EXTRACT_TOKEN_TRANSFERS'' = None"
    using that by (simp add: flags get_boolean_env_variable_def)
  show "export_traces_toggle (module_config m)" if "env ''EXPORT_TRACES'' = None"
    using that by (simp add: flags get_boolean_env_variable_def)
  show "email (module_dag m) = None" if "env ''NOTIFICATION_EMAILS'' = None"
  proof -
    from operators_char [of "module_config m" env] load_module_Inr(2) [OF m]
    have "email (module_dag m) = notification_emails env" by auto
    with that show ?thesis by (simp add: notification_emails_def)
  qed
qed

theorem required_configuration_witness:
  "load_module Map.empty = Inl (ValueError ''You must set OUTPUT_BUCKET environment variable'')
   \<and> execute_task Map.empty sample_units ''export_traces'' \<lparr>year = 2021, month = 3, day = 1\<rparr>
        sample_world
      = (Inl (ValueError ''You must set OUTPUT_BUCKET environment variable''), sample_world)
   \<and> load_module [''EXPORT_MAX_WORKERS'' \<mapsto> ''5'']
      = Inl (ValueError ''You must set OUTPUT_BUCKET environment variable'')
   \<and> (\<exists>m. load_module [''OUTPUT_BUCKET'' \<mapsto> ''bucket''] = Inr m
          \<and> output_bucket (module_config m) = ''bucket''
          \<and> web3_provider_uri (module_config m) = ''https://mainnet.infura.io/''
          \<and> web3_provider_uri_archival (module_config m) = ''https://mainnet.infura.io/''
          \<and> export_max_workers (module_config m) = 5
          \<and> export_batch_size (module_config m) = 10
          \<and> export_traces_toggle (module_config m)
          \<and> export_genesis_traces_option (module_config m)
          \<and> email (module_dag m) = None)"
proof -
  let ?env = "[''OUTPUT_BUCKET'' \<mapsto> ''bucket'']"
  let ?bad = "[''EXPORT_MAX_WORKERS'' \<mapsto> ''5'']"
  let ?d = "\<lparr>year = 2021, month = 3, day = 1\<rparr>"
  have 1: "load_module Map.empty
             = Inl (ValueError ''You must set OUTPUT_BUCKET environment variable'')"
    using required_configuration [of Map.empty, THEN conjunct1] by simp
  have 2: "execute_task Map.empty sample_units ''export_traces'' ?d sample_world
      = (Inl (ValueError ''You must set OUTPUT_BUCKET environment variable''), sample_world)"
    using required_configuration [of Map.empty, THEN conjunct1] by simp
  have 3: "load_module ?bad = Inl (ValueError ''You must set OUTPUT_BUCKET environment variable'')"
    using required_configuration [of ?bad, THEN conjunct1] by simp
  from required_configuration [of ?env, THEN conjunct2, THEN conjunct2, THEN conjunct1,
      rule_format, of "''bucket''"]
  obtain m where m: "load_module ?env = Inr m" and b: "output_bucket (module_config m) = ''bucket''"
    by auto
  note d = required_configuration [of ?env, THEN conjunct2, THEN conjunct2, THEN conjunct2,
      rule_format, OF m]
  have u: "web3_provider_uri (module_config m) = ''https://mainnet.infura.io/''"
    using d by simp
  have "web3_provider_uri_archival (module_config m) = web3_provider_uri (module_config m)"
    using d by simp
  with u have a: "web3_provider_uri_archival (module_config m) = ''https://mainnet.infura.io/''"
    by simp
  have r: "export_max_workers (module_config m) = 5" "export_batch_size (module_config m) = 10"
    "export_traces_toggle (module_config m)" "export_genesis_traces_option (module_config m)"
    "email (module_dag m) = None"
    using d by simp_all
  show ?thesis
    using 1 2 3 m b u a r by - (intro conjI exI [of _ m], assumption+)
qed

section \<open>What a command does to the world\<close>

lemmas body_defs =
  export_blocks_and_transactions_body_def export_receipts_and_logs_body_def
  export_contracts_body_def export_tokens_body_def extract_token_transfers_body_def
  export_traces_body_def

lemma run_command_body:
  "run_command c cfg units d = with_TemporaryDirectory (command_body c cfg units d)"
  by (cases c)
     (simp_all add: export_blocks_and_transactions_command_def
        export_receipts_and_logs_command_def export_contracts_command_def
        export_tokens_command_def extract_token_transfers_command_def
        export_traces_command_def)

lemma in_dir_os_path_join:
  assumes "f \<noteq> []" "hd f \<noteq> CHR ''/''"
  shows "in_dir t (os_path_join t f)"
  using assms by (auto simp: in_dir_def os_path_join_def strict_prefix_def)

lemma not_in_dir_neq:
  assumes "\<not> in_dir t p" "f \<noteq> []" "hd f \<noteq> CHR ''/''"
  shows "p \<noteq> os_path_join t f"
  using assms in_dir_os_path_join by blast

lemma command_body_files_outside:
  assumes "\<not> in_dir t p"
  shows "files (snd (command_body c cfg units d t w)) p = files w p"
  using not_in_dir_neq [OF assms]
  by (cases c)
     (auto simp: body_defs step_defs split: sum.splits prod.splits option.splits if_splits)

lemma command_body_dirs: "dirs (snd (command_body c cfg units d t w)) = dirs w"
  by (cases c)
     (auto simp: body_defs step_defs split: sum.splits prod.splits option.splits if_splits)

lemma sample_receipts_run:
  "fst (run_command Export_receipts_and_logs_command sample_config sample_units
          \<lparr>year = 2021, month = 3, day = 1\<rparr> sample_world) = Inl NotFoundError"
  by (simp add: export_receipts_and_logs_command_def with_TemporaryDirectory_eq
      export_receipts_and_logs_body_def step_defs sample_config_def sample_world_def)

lemma sample_traces_run:
  "fst (run_command Export_traces_command sample_config
          (sample_units\<lparr>export_traces :=
             (\<lambda>start_block end_block batch_size max_workers provider_uri genesis_traces
                 daofork_traces. Inl (ExtractionError ''node unreachable''))\<rparr>)
          \<lparr>year = 2021, month = 3, day = 1\<rparr> sample_world)
     = Inl (ExtractionError ''node unreachable'')"
  by (simp add: export_traces_command_def with_TemporaryDirectory_eq
      export_traces_body_def step_defs sample_config_def sample_units_def
      sample_world_def sample_block_range)

lemma sample_blocks_run_unreachable:
  "fst (run_command Export_blocks_and_transactions_command sample_config sample_units
          \<lparr>year = 2021, month = 3, day = 1\<rparr> (sample_world\<lparr>net := [False]\<rparr>)) = Inl StorageError"
  by (simp add: export_blocks_and_transactions_command_def with_TemporaryDirectory_eq
      export_blocks_and_transactions_body_def step_defs sample_config_def sample_units_def
      sample_world_def sample_block_range os_path_join_def basename_def)

text \<open>
  C6. Whatever a step command returns, a value or any error, the temporary directory it
  worked in is gone when it returns and no file is left under it; the list of directories is
  the one before without it, and no file outside it was touched.
\<close>

theorem staging_workspace_cleanup:
  "run_command c cfg units d w = (r, w') \<longrightarrow>
     tmp_name w \<notin> dirs w'
     \<and> dirs w' = dirs w - {tmp_name w}
     \<and> (\<forall>p. in_dir (tmp_name w) p \<longrightarrow> files w' p = None)
     \<and> (\<forall>p. \<not> in_dir (tmp_name w) p \<longrightarrow> files w' p = files w p)"
proof
  let ?t = "tmp_name w"
  let ?w0 = "w\<lparr>dirs := insert ?t (dirs w)\<rparr>"
  let ?w1 = "snd (command_body c cfg units d ?t ?w0)"
  assume "run_command c cfg units d w = (r, w')"
  then have w': "w' = rmtree ?t ?w1"
    by (simp add: run_command_body with_TemporaryDirectory_eq)
  have d: "dirs ?w1 = insert ?t (dirs w)"
    by (simp add: command_body_dirs)
  have f: "files ?w1 p = files w p" if "\<not> in_dir ?t p" for p
    using command_body_files_outside [OF that, of c cfg units d ?w0] by simp
  show "tmp_name w \<notin> dirs w'
     \<and> dirs w' = dirs w - {tmp_name w}
     \<and> (\<forall>p. in_dir (tmp_name w) p \<longrightarrow> files w' p = None)
     \<and> (\<forall>p. \<not> in_dir (tmp_name w) p \<longrightarrow> files w' p = files w p)"
    using d f by (auto simp: w' rmtree_def)
qed

theorem staging_workspace_cleanup_witness:
  "(let run = run_command Export_blocks_and_transactions_command sample_config sample_units
                \<lparr>year = 2021, month = 3, day = 1\<rparr> sample_world
    in fst run = Inr () \<and> ''/tmp/tmpab12'' \<notin> dirs (snd run)
       \<and> files (snd run) ''/tmp/tmpab12/blocks.csv'' = None
       \<and> files (snd run) ''/tmp/tmpab12/blocks_meta.txt'' = None)
   \<and> (let run = run_command Export_receipts_and_logs_command sample_config sample_units
                \<lparr>year = 2021, month = 3, day = 1\<rparr> sample_world
      in fst run = Inl NotFoundError \<and> ''/tmp/tmpab12'' \<notin> dirs (snd run)
         \<and> files (snd run) ''/tmp/tmpab12/transactions.csv'' = None)
   \<and> (let run = run_command Export_traces_command sample_config
                (sample_units\<lparr>export_traces :=
                   (\<lambda>start_block end_block batch_size max_workers provider_uri genesis_traces
                       daofork_traces. Inl (ExtractionError ''node unreachable''))\<rparr>)
                \<lparr>year = 2021, month = 3, day = 1\<rparr> sample_world
      in fst run = Inl (ExtractionError ''node unreachable'')
         \<and> ''/tmp/tmpab12'' \<notin> dirs (snd run)
         \<and> files (snd run) ''/tmp/tmpab12/blocks_meta.txt'' = None)
   \<and> (let run = run_command Export_blocks_and_transactions_command sample_config sample_units
                \<lparr>year = 2021, month = 3, day = 1\<rparr> (sample_world\<lparr>net := [False]\<rparr>)
      in fst run = Inl StorageError \<and> ''/tmp/tmpab12'' \<notin> dirs (snd run)
         \<and> files (snd run) ''/tmp/tmpab12/transactions.csv'' = None)"
proof -
  let ?d = "\<lparr>year = 2021, month = 3, day = 1\<rparr>"
  let ?failing = "sample_units\<lparr>export_traces :=
                   (\<lambda>start_block end_block batch_size max_workers provider_uri genesis_traces
                       daofork_traces. Inl (ExtractionError ''node unreachable''))\<rparr>"
  let ?r1 = "run_command Export_blocks_and_transactions_command sample_config sample_units ?d
               sample_world"
  let ?r2 = "run_command Export_receipts_and_logs_command sample_config sample_units ?d
               sample_world"
  let ?r3 = "run_command Export_traces_command sample_config ?failing ?d sample_world"
  let ?r4 = "run_command Export_blocks_and_transactions_command sample_config sample_units ?d
               (sample_world\<lparr>net := [False]\<rparr>)"
  have t: "tmp_name sample_world = ''/tmp/tmpab12''"
    "tmp_name (sample_world\<lparr>net := [False]\<rparr>) = ''/tmp/tmpab12''"
    by (simp_all add: sample_world_def)
  have i: "in_dir ''/tmp/tmpab12'' ''/tmp/tmpab12/blocks.csv''"
    "in_dir ''/tmp/tmpab12'' ''/tmp/tmpab12/blocks_meta.txt''"
    "in_dir ''/tmp/tmpab12'' ''/tmp/tmpab12/transactions.csv''"
    by (simp_all add: in_dir_def os_path_join_def strict_prefix_def)
  have 1: "''/tmp/tmpab12'' \<notin> dirs (snd ?r1)
      \<and> files (snd ?r1) ''/tmp/tmpab12/blocks.csv'' = None
      \<and> files (snd ?r1) ''/tmp/tmpab12/blocks_meta.txt'' = None"
    using staging_workspace_cleanup [of Export_blocks_and_transactions_command sample_config
        sample_units ?d sample_world "fst ?r1" "snd ?r1"] i
    by (simp add: t)
  have 2: "''/tmp/tmpab12'' \<notin> dirs (snd ?r2)
      \<and> files (snd ?r2) ''/tmp/tmpab12/transactions.csv'' = None"
    using staging_workspace_cleanup [of Export_receipts_and_logs_command sample_config
        sample_units ?d sample_world "fst ?r2" "snd ?r2"] i
    by (simp add: t)
  have 3: "''/tmp/tmpab12'' \<notin> dirs (snd ?r3)
      \<and> files (snd ?r3) ''/tmp/tmpab12/blocks_meta.txt'' = None"
    using staging_workspace_cleanup [of Export_traces_command sample_config
        ?failing ?d sample_world "fst ?r3" "snd ?r3"] i
    by (simp add: t)
  have 4: "''/tmp/tmpab12'' \<notin> dirs (snd ?r4)
      \<and> files (snd ?r4) ''/tmp/tmpab12/transactions.csv'' = None"
    using staging_workspace_cleanup [of Export_blocks_and_transactions_command sample_config
        sample_units ?d "sample_world\<lparr>net := [False]\<rparr>" "fst ?r4" "snd ?r4"] i
    by (simp add: t)
  have r1: "fst ?r1 = Inr ()"
    using sample_blocks_run by simp
  show ?thesis
    unfolding Let_def
    using 1 2 3 4 r1 sample_receipts_run sample_traces_run sample_blocks_run_unreachable
    by - (intro conjI, (elim conjE, assumption)+)
qed

section \<open>A missing upstream artifact\<close>

lemma command_body_not_found:
  assumes "fetched c = Some (kind, filename)"
    and "store w (output_bucket cfg, export_path kind d @ filename) = None"
  shows "command_body c cfg units d t w =
           (Inl (if reaches_store w then NotFoundError else StorageError),
            w\<lparr>net := tl (net w),
              trace := trace w
                @ [Download (output_bucket cfg) (export_path kind d @ filename) False]\<rparr>)"
  using assms
  by (cases c) (auto simp: body_defs step_defs basename_os_path_join)

text \<open>
  C7. When the object a consumer step fetches is absent from the store at
  \<open>export_path kind date + basename(local file)\<close>, the command ends with an error (the
  not-found error of the fetch when the store is reachable); the failed download is the only
  call it makes, so no unit of work runs and nothing is uploaded, and the store is as before.
  All four consumers fetch: receipts and logs, contracts, tokens and token transfers.
\<close>

theorem fetch_not_found:
  "(fetched c = Some (kind, filename)
      \<and> store w (output_bucket cfg, export_path kind d @ filename) = None
      \<and> run_command c cfg units d w = (r, w') \<longrightarrow>
        (\<exists>e. r = Inl e)
      \<and> (reaches_store w \<longrightarrow> r = Inl NotFoundError)
      \<and> trace w' = trace w
           @ [Download (output_bucket cfg) (export_path kind d @ filename) False]
      \<and> store w' = store w)
   \<and> map fetched [Export_receipts_and_logs_command, Export_contracts_command,
                   Export_tokens_command, Extract_token_transfers_command]
       = [Some (''transactions'', ''transactions.csv''), Some (''receipts'', ''receipts.csv''),
          Some (''contracts'', ''contracts.json''), Some (''logs'', ''logs.json'')]
   \<and> (\<forall>tempdir. basename (os_path_join tempdir filename) = filename
          \<or> CHR ''/'' \<in> set filename)"
proof (intro conjI impI allI)
  assume a: "fetched c = Some (kind, filename)
      \<and> store w (output_bucket cfg, export_path kind d @ filename) = None
      \<and> run_command c cfg units d w = (r, w')"
  let ?t = "tmp_name w"
  let ?w0 = "w\<lparr>dirs := insert ?t (dirs w)\<rparr>"
  have "store ?w0 (output_bucket cfg, export_path kind d @ filename) = None"
    using a by simp
  from command_body_not_found [of c kind filename ?w0 cfg d units ?t, OF _ this] a
  have r: "r = Inl (if reaches_store w then NotFoundError else StorageError)"
    and w': "w' = rmtree ?t (?w0\<lparr>net := tl (net w),
              trace := trace w
                @ [Download (output_bucket cfg) (export_path kind d @ filename) False]\<rparr>)"
    by (simp_all add: run_command_body with_TemporaryDirectory_eq reaches_store_def)
  show "\<exists>e. r = Inl e" by (simp add: r)
  show "r = Inl NotFoundError" if "reaches_store w" using that by (simp add: r)
  show "trace w' = trace w
           @ [Download (output_bucket cfg) (export_path kind d @ filename) False]"
    by (simp add: w' rmtree_def)
  show "store w' = store w" by (simp add: w' rmtree_def)
next
  show "map fetched [Export_receipts_and_logs_command, Export_contracts_command,
                   Export_tokens_command, Extract_token_transfers_command]
       = [Some (''transactions'', ''transactions.csv''), Some (''receipts'', ''receipts.csv''),
          Some (''contracts'', ''contracts.json''), Some (''logs'', ''logs.json'')]"
    by simp
next
  fix tempdir
  show "basename (os_path_join tempdir filename) = filename \<or> CHR ''/'' \<in> set filename"
    using basename_os_path_join [of filename tempdir] by blast
qed

theorem fetch_not_found_witness:
  "run_command Export_tokens_command sample_config sample_units
     \<lparr>year = 2021, month = 3, day = 1\<rparr> sample_world
   = (Inl NotFoundError,
      snd (run_command Export_tokens_command sample_config sample_units
             \<lparr>year = 2021, month = 3, day = 1\<rparr> sample_world))
   \<and> trace (snd (run_command Export_tokens_command sample_config sample_units
                   \<lparr>year = 2021, month = 3, day = 1\<rparr> sample_world))
      = [Download ''bucket'' ''export/contracts/block_date=2021-03-01/contracts.json'' False]
   \<and> store (snd (run_command Export_tokens_command sample_config sample_units
                   \<lparr>year = 2021, month = 3, day = 1\<rparr> sample_world)) = Map.empty"
proof -
  let ?d = "\<lparr>year = 2021, month = 3, day = 1\<rparr>"
  let ?run = "run_command Export_tokens_command sample_config sample_units ?d sample_world"
  have p: "export_path ''contracts'' ?d = ''export/contracts/block_date=2021-03-01/''"
    by (simp add: export_path_def strftime_Ymd_def zfill_def digit_char_def str_nat.simps)
  have "store sample_world
          (output_bucket sample_config, export_path ''contracts'' ?d @ ''contracts.json'') = None"
    by (simp add: sample_world_def)
  with fetch_not_found [of Export_tokens_command "''contracts''" "''contracts.json''"
      sample_world sample_config ?d sample_units "fst ?run" "snd ?run", THEN conjunct1]
  have "fst ?run = Inl NotFoundError"
    and "trace (snd ?run) = trace sample_world
           @ [Download (output_bucket sample_config)
                (export_path ''contracts'' ?d @ ''contracts.json'') False]"
    and "store (snd ?run) = store sample_world"
    by (simp_all add: sample_world_def reaches_store_def)
  then show ?thesis
    unfolding p by (simp add: sample_world_def sample_config_def prod_eq_iff)
qed

end
